theory Spec2Isabelle
  imports Complex_Main "HOL-Library.Multiset"
begin

section \<open>Python values that cross the wire\<close>

text \<open>
  The server answers with one JSON document per line.  The client keeps whatever
  \<^verbatim>\<open>json.loads\<close> produced, so the fields of a response are arbitrary JSON values, not
  only strings.  Python's \<^verbatim>\<open>None\<close> is \<open>JNull\<close>; a float is finite, NaN or infinite
  (\<^verbatim>\<open>json.loads\<close> accepts the literals NaN and Infinity); a dict is the list of its items
  in insertion order, looked up with \<open>map_of\<close>.
\<close>

datatype pyfloat = Finite real | NaN | PosInf | NegInf

datatype json =
    JNull
  | JBool bool
  | JInt int
  | JFloat pyfloat
  | JStr string
  | JArr "json list"
  | JObj "(string \<times> json) list"

text \<open>The exceptions the source names in its handlers; everything else is \<open>OtherError\<close>.\<close>

datatype exn =
    JSONDecodeError
  | KeyError
  | AttributeError
  | TypeError
  | ValueError
  | ConnectionError
  | SocketError
  | IntegrityError
  | OperationalError
  | OtherError

text \<open>Truth value of an object in a condition (\<^verbatim>\<open>if x\<close>, \<^verbatim>\<open>not x\<close>).\<close>

fun truthy :: "json \<Rightarrow> bool" where
  "truthy JNull = False"
| "truthy (JBool b) = b"
| "truthy (JInt i) = (i \<noteq> 0)"
| "truthy (JFloat (Finite r)) = (r \<noteq> 0)"
| "truthy (JFloat _) = True"
| "truthy (JStr s) = (s \<noteq> [])"
| "truthy (JArr xs) = (xs \<noteq> [])"
| "truthy (JObj kv) = (kv \<noteq> [])"

text \<open>\<^verbatim>\<open>needle in haystack\<close> on two strings: a contiguous occurrence.\<close>

fun str_contains :: "string \<Rightarrow> string \<Rightarrow> bool" where
  "str_contains [] p = (p = [])"
| "str_contains (c # cs) p = (take (length p) (c # cs) = p \<or> str_contains cs p)"

text \<open>
  \<^verbatim>\<open>key in obj\<close>: key membership on a dict, element membership on a list, substring on
  a string, and a TypeError on everything that is not a container.
\<close>

fun py_contains :: "json \<Rightarrow> string \<Rightarrow> exn + bool" where
  "py_contains (JObj kv) k = Inr (map_of kv k \<noteq> None)"
| "py_contains (JArr xs) k = Inr (JStr k \<in> set xs)"
| "py_contains (JStr s) k = Inr (str_contains s k)"
| "py_contains _ k = Inl TypeError"

text \<open>\<^verbatim>\<open>obj[key]\<close> with a string key: only a dict can be indexed that way.\<close>

fun py_getitem :: "json \<Rightarrow> string \<Rightarrow> exn + json" where
  "py_getitem (JObj kv) k = (case map_of kv k of None \<Rightarrow> Inl KeyError | Some v \<Rightarrow> Inr v)"
| "py_getitem _ k = Inl TypeError"

text \<open>\<^verbatim>\<open>obj.get(key, default)\<close>: a method of dicts only.\<close>

fun py_get :: "json \<Rightarrow> string \<Rightarrow> json \<Rightarrow> exn + json" where
  "py_get (JObj kv) k d = Inr (case map_of kv k of None \<Rightarrow> d | Some v \<Rightarrow> v)"
| "py_get _ k d = Inl AttributeError"

text \<open>
  \<^verbatim>\<open>for x in obj\<close>: the elements of a list, the keys of a dict, the characters of a
  string; anything else is not iterable.
\<close>

fun py_iter :: "json \<Rightarrow> exn + json list" where
  "py_iter (JArr xs) = Inr xs"
| "py_iter (JObj kv) = Inr (map (\<lambda>(k, v). JStr k) kv)"
| "py_iter (JStr s) = Inr (map (\<lambda>c. JStr [c]) s)"
| "py_iter _ = Inl TypeError"

text \<open>
  The standard library's JSON codec is not code of this program; it is a parameter.
  \<open>json_loads\<close> is \<open>None\<close> where \<^verbatim>\<open>json.loads\<close> raises.
\<close>

record pylib =
  json_loads :: "string \<Rightarrow> json option"
  json_dumps :: "json \<Rightarrow> string"

section \<open>ds\_protocol.py\<close>

datatype ServerResponse =
  ServerResponse (sr_type: json) (sr_message: json) (sr_token: json)

datatype MessageResponse =
  MessageResponse (mr_type: json) (mr_messages: json)

definition create_join :: "pylib \<Rightarrow> string \<Rightarrow> string \<Rightarrow> string" where
  "create_join lib username password =
     json_dumps lib (JObj [(''join'', JObj [(''username'', JStr username),
                                             (''password'', JStr password),
                                             (''token'', JStr '''')])])"

text \<open>\<open>now\<close> is the text of \<^verbatim>\<open>str(time.time())\<close> at the call.\<close>

definition create_direct_message :: "pylib \<Rightarrow> json \<Rightarrow> string \<Rightarrow> string \<Rightarrow> string \<Rightarrow> string" where
  "create_direct_message lib tok message recipient now =
     json_dumps lib (JObj [(''token'', tok),
                           (''directmessage'', JObj [(''entry'', JStr message),
                                                     (''recipient'', JStr recipient),
                                                     (''timestamp'', JStr now)])])"

definition request_unread_messages :: "pylib \<Rightarrow> json \<Rightarrow> string" where
  "request_unread_messages lib tok =
     json_dumps lib (JObj [(''token'', tok), (''directmessage'', JStr ''new'')])"

definition request_all_messages :: "pylib \<Rightarrow> json \<Rightarrow> string" where
  "request_all_messages lib tok =
     json_dumps lib (JObj [(''token'', tok), (''directmessage'', JStr ''all'')])"

text \<open>
  The body of the \<^verbatim>\<open>try\<close> block of \<^verbatim>\<open>parse_response\<close>: \<open>Inl\<close> is an exception on its
  way to a handler, \<open>Inr None\<close> is falling out of the \<^verbatim>\<open>if\<close> to the final
  \<^verbatim>\<open>return None\<close>.
\<close>

definition parse_response_try :: "pylib \<Rightarrow> string \<Rightarrow> exn + ServerResponse option" where
  "parse_response_try lib json_msg =
     (case json_loads lib json_msg of
        None \<Rightarrow> Inl JSONDecodeError
      | Some json_obj \<Rightarrow>
          (case py_contains json_obj ''response'' of
             Inl e \<Rightarrow> Inl e
           | Inr False \<Rightarrow> Inr None
           | Inr True \<Rightarrow>
               (case py_getitem json_obj ''response'' of
                  Inl e \<Rightarrow> Inl e
                | Inr resp \<Rightarrow>
                    (case py_get resp ''type'' JNull of
                       Inl e \<Rightarrow> Inl e
                     | Inr t \<Rightarrow>
                         (case py_get resp ''message'' (JStr '''') of
                            Inl e \<Rightarrow> Inl e
                          | Inr m \<Rightarrow>
                              (case py_get resp ''token'' (JStr '''') of
                                 Inl e \<Rightarrow> Inl e
                               | Inr k \<Rightarrow> Inr (Some (ServerResponse t m k))))))))"

text \<open>Every handler prints and falls through to \<^verbatim>\<open>return None\<close>.\<close>

definition parse_response :: "pylib \<Rightarrow> string \<Rightarrow> ServerResponse option" where
  "parse_response lib json_msg =
     (case parse_response_try lib json_msg of Inl e \<Rightarrow> None | Inr r \<Rightarrow> r)"

definition parse_messages_try :: "pylib \<Rightarrow> string \<Rightarrow> exn + MessageResponse option" where
  "parse_messages_try lib json_msg =
     (case json_loads lib json_msg of
        None \<Rightarrow> Inl JSONDecodeError
      | Some json_obj \<Rightarrow>
          (case py_contains json_obj ''response'' of
             Inl e \<Rightarrow> Inl e
           | Inr False \<Rightarrow> Inr None
           | Inr True \<Rightarrow>
               (case py_getitem json_obj ''response'' of
                  Inl e \<Rightarrow> Inl e
                | Inr resp \<Rightarrow>
                    (case py_get resp ''type'' JNull of
                       Inl e \<Rightarrow> Inl e
                     | Inr t \<Rightarrow>
                         (case py_get resp ''messages'' (JArr []) of
                            Inl e \<Rightarrow> Inl e
                          | Inr ms \<Rightarrow> Inr (Some (MessageResponse t ms)))))))"

definition parse_messages :: "pylib \<Rightarrow> string \<Rightarrow> MessageResponse option" where
  "parse_messages lib json_msg =
     (case parse_messages_try lib json_msg of Inl e \<Rightarrow> None | Inr r \<Rightarrow> r)"

section \<open>The operating system and the server\<close>

text \<open>
  Sockets and their file objects are handles.  The world holds what the environment
  will answer to the next calls (the outcome of each \<^verbatim>\<open>connect\<close>, of each
  \<^verbatim>\<open>write\<close>/\<^verbatim>\<open>flush\<close>, of each \<^verbatim>\<open>readline\<close>, of each \<^verbatim>\<open>close\<close>, and the text of
  \<^verbatim>\<open>str(time.time())\<close>), which handles are open, and the list of calls made so far,
  each logged whether or not it succeeds.  When a list of outcomes is used up, connecting
  is refused, writing and closing succeed, reading returns the empty line of a closed
  connection.  Creating a socket and \<^verbatim>\<open>makefile\<close> do not fail.
\<close>

type_synonym handle = nat

datatype call =
    SocketNew handle
  | SocketConnect handle string nat
  | MakeFile handle handle
  | StreamWrite handle string
  | StreamFlush handle
  | StreamReadline handle
  | Close handle
  | Sleep int

record world =
  connect_results :: "exn option list"
  send_results :: "exn option list"
  recv_results :: "(exn + string) list"
  close_results :: "exn option list"
  clock :: "string list"
  next_handle :: handle
  open_handles :: "handle set"
  calls :: "call list"

definition socket_new :: "world \<Rightarrow> handle \<times> world" where
  "socket_new w =
     (next_handle w,
      w\<lparr>next_handle := Suc (next_handle w),
        open_handles := insert (next_handle w) (open_handles w),
        calls := calls w @ [SocketNew (next_handle w)]\<rparr>)"

definition socket_connect :: "handle \<Rightarrow> string \<Rightarrow> nat \<Rightarrow> world \<Rightarrow> exn option \<times> world" where
  "socket_connect h host prt w =
     (case connect_results w of
        [] \<Rightarrow> (Some ConnectionError, w\<lparr>calls := calls w @ [SocketConnect h host prt]\<rparr>)
      | r # rs \<Rightarrow> (r, w\<lparr>connect_results := rs, calls := calls w @ [SocketConnect h host prt]\<rparr>))"

definition makefile :: "handle \<Rightarrow> world \<Rightarrow> handle \<times> world" where
  "makefile sock w =
     (next_handle w,
      w\<lparr>next_handle := Suc (next_handle w),
        open_handles := insert (next_handle w) (open_handles w),
        calls := calls w @ [MakeFile sock (next_handle w)]\<rparr>)"

text \<open>An operation on a closed file object raises ValueError.\<close>

definition stream_write :: "handle \<Rightarrow> string \<Rightarrow> world \<Rightarrow> exn option \<times> world" where
  "stream_write h s w =
     (if h \<notin> open_handles w then (Some ValueError, w\<lparr>calls := calls w @ [StreamWrite h s]\<rparr>)
      else case send_results w of
             [] \<Rightarrow> (None, w\<lparr>calls := calls w @ [StreamWrite h s]\<rparr>)
           | r # rs \<Rightarrow> (r, w\<lparr>send_results := rs, calls := calls w @ [StreamWrite h s]\<rparr>))"

definition stream_flush :: "handle \<Rightarrow> world \<Rightarrow> exn option \<times> world" where
  "stream_flush h w =
     (if h \<notin> open_handles w then (Some ValueError, w\<lparr>calls := calls w @ [StreamFlush h]\<rparr>)
      else case send_results w of
             [] \<Rightarrow> (None, w\<lparr>calls := calls w @ [StreamFlush h]\<rparr>)
           | r # rs \<Rightarrow> (r, w\<lparr>send_results := rs, calls := calls w @ [StreamFlush h]\<rparr>))"

definition stream_readline :: "handle \<Rightarrow> world \<Rightarrow> (exn + string) \<times> world" where
  "stream_readline h w =
     (if h \<notin> open_handles w then (Inl ValueError, w\<lparr>calls := calls w @ [StreamReadline h]\<rparr>)
      else case recv_results w of
             [] \<Rightarrow> (Inr [], w\<lparr>calls := calls w @ [StreamReadline h]\<rparr>)
           | r # rs \<Rightarrow> (r, w\<lparr>recv_results := rs, calls := calls w @ [StreamReadline h]\<rparr>))"

text \<open>
  Closing twice is harmless.  A close that raises (a failed flush of buffered data) has
  closed the handle all the same.
\<close>

definition handle_close :: "handle \<Rightarrow> world \<Rightarrow> exn option \<times> world" where
  "handle_close h w =
     (if h \<notin> open_handles w then (None, w\<lparr>calls := calls w @ [Close h]\<rparr>)
      else case close_results w of
             [] \<Rightarrow> (None, w\<lparr>open_handles := open_handles w - {h}, calls := calls w @ [Close h]\<rparr>)
           | r # rs \<Rightarrow> (r, w\<lparr>close_results := rs, open_handles := open_handles w - {h},
                              calls := calls w @ [Close h]\<rparr>))"

definition time_str :: "world \<Rightarrow> string \<times> world" where
  "time_str w = (case clock w of [] \<Rightarrow> ([], w) | t # ts \<Rightarrow> (t, w\<lparr>clock := ts\<rparr>))"

definition sleep :: "int \<Rightarrow> world \<Rightarrow> world" where
  "sleep secs w = w\<lparr>calls := calls w @ [Sleep secs]\<rparr>"

definition CRLF :: string where
  "CRLF = [CHR 0x0D, CHR 0x0A]"

text \<open>Readers of the call log.\<close>

fun is_connect_call :: "call \<Rightarrow> bool" where
  "is_connect_call (SocketConnect h host prt) = True"
| "is_connect_call _ = False"

fun is_close_call :: "call \<Rightarrow> bool" where
  "is_close_call (Close h) = True"
| "is_close_call _ = False"

fun is_io_call :: "call \<Rightarrow> bool" where
  "is_io_call (Sleep secs) = False"
| "is_io_call _ = True"

fun writes :: "call list \<Rightarrow> string list" where
  "writes [] = []"
| "writes (StreamWrite h s # cs) = s # writes cs"
| "writes (c # cs) = writes cs"

section \<open>ds\_messenger.py\<close>

datatype DirectMessage =
  DirectMessage (recipient: json) (message: json) (timestamp: json)

record DirectMessenger =
  token :: json
  dsuserver :: string
  username :: "string option"
  password :: "string option"
  port :: nat
  socket :: "handle option"
  send_stream :: "handle option"
  recv_stream :: "handle option"

text \<open>\<^verbatim>\<open>__init__\<close>: no token, no socket, no streams.\<close>

definition DirectMessenger_init ::
  "string option \<Rightarrow> string option \<Rightarrow> string option \<Rightarrow> DirectMessenger" where
  "DirectMessenger_init server user pass =
     \<lparr>token = JNull,
      dsuserver = (case server of None \<Rightarrow> ''127.0.0.1''
                   | Some s \<Rightarrow> if s = [] then ''127.0.0.1'' else s),
      username = user,
      password = pass,
      port = 3001,
      socket = None,
      send_stream = None,
      recv_stream = None\<rparr>"

text \<open>
  \<^verbatim>\<open>close\<close>: the three closes sit in one \<^verbatim>\<open>try\<close>, so the first one that raises
  skips the others.  No attribute of the messenger is assigned.
\<close>

definition close_if_set :: "handle option \<Rightarrow> world \<Rightarrow> exn option \<times> world" where
  "close_if_set h w = (case h of None \<Rightarrow> (None, w) | Some x \<Rightarrow> handle_close x w)"

definition close :: "DirectMessenger \<times> world \<Rightarrow> DirectMessenger \<times> world" where
  "close s =
     (case s of (m, w) \<Rightarrow>
        (case close_if_set (send_stream m) w of
           (Some e, w1) \<Rightarrow> (m, w1)
         | (None, w1) \<Rightarrow>
             (case close_if_set (recv_stream m) w1 of
                (Some e, w2) \<Rightarrow> (m, w2)
              | (None, w2) \<Rightarrow> (m, snd (close_if_set (socket m) w2)))))"

text \<open>\<^verbatim>\<open>if self.username and self.password\<close>: both set and both non-empty.\<close>

definition credentials :: "DirectMessenger \<Rightarrow> (string \<times> string) option" where
  "credentials m =
     (case (username m, password m) of
        (Some u, Some p) \<Rightarrow> if u \<noteq> [] \<and> p \<noteq> [] then Some (u, p) else None
      | _ \<Rightarrow> None)"

text \<open>
  The \<^verbatim>\<open>try\<close> block of \<^verbatim>\<open>connect\<close>.  \<open>Inl e\<close>: an exception reached a handler;
  \<open>Inr True\<close>: the \<^verbatim>\<open>return True\<close> of line 63; \<open>Inr False\<close>: the \<^verbatim>\<open>return False\<close>
  of line 64.
\<close>

definition connect_try ::
  "pylib \<Rightarrow> DirectMessenger \<times> world \<Rightarrow> (exn + bool) \<times> DirectMessenger \<times> world" where
  "connect_try lib s =
     (case s of (m, w) \<Rightarrow>
      (case socket_new w of (sock, w1) \<Rightarrow>
       (let m1 = m\<lparr>socket := Some sock\<rparr> in
        (case socket_connect sock (dsuserver m1) (port m1) w1 of
           (Some e, w2) \<Rightarrow> (Inl e, m1, w2)
         | (None, w2) \<Rightarrow>
            (case makefile sock w2 of (ss, w3) \<Rightarrow>
             (case makefile sock w3 of (rs, w4) \<Rightarrow>
              (let m3 = m1\<lparr>send_stream := Some ss, recv_stream := Some rs\<rparr> in
               (case credentials m3 of
                  None \<Rightarrow> (Inr False, m3, w4)
                | Some (u, p) \<Rightarrow>
                   (case stream_write ss (create_join lib u p @ CRLF) w4 of
                      (Some e, w5) \<Rightarrow> (Inl e, m3, w5)
                    | (None, w5) \<Rightarrow>
                       (case stream_flush ss w5 of
                          (Some e, w6) \<Rightarrow> (Inl e, m3, w6)
                        | (None, w6) \<Rightarrow>
                           (case stream_readline rs w6 of
                              (Inl e, w7) \<Rightarrow> (Inl e, m3, w7)
                            | (Inr line, w7) \<Rightarrow>
                               (case parse_response lib line of
                                  None \<Rightarrow> (Inr False, m3, w7)
                                | Some response \<Rightarrow>
                                   if sr_type response = JStr ''ok''
                                   then (Inr True, m3\<lparr>token := sr_token response\<rparr>, w7)
                                   else (Inr False, m3, w7)))))))))))))"

text \<open>The three handlers of \<^verbatim>\<open>connect\<close> do the same: print, \<^verbatim>\<open>self.close()\<close>, return False.\<close>

definition connect :: "pylib \<Rightarrow> DirectMessenger \<times> world \<Rightarrow> bool \<times> DirectMessenger \<times> world" where
  "connect lib s =
     (case connect_try lib s of
        (Inr b, m, w) \<Rightarrow> (b, m, w)
      | (Inl e, m, w) \<Rightarrow> (False, close (m, w)))"

text \<open>
  One request and one response line, as \<^verbatim>\<open>send\<close>, \<^verbatim>\<open>retrieve_new\<close> and
  \<^verbatim>\<open>retrieve_all\<close> each write it out: write, flush, readline.  A stream attribute that
  is still \<^verbatim>\<open>None\<close> has no \<^verbatim>\<open>write\<close> or \<^verbatim>\<open>readline\<close>: AttributeError.
\<close>

definition exchange :: "string \<Rightarrow> DirectMessenger \<times> world \<Rightarrow> (exn + string) \<times> world" where
  "exchange request s =
     (case s of (m, w) \<Rightarrow>
      (case send_stream m of
         None \<Rightarrow> (Inl AttributeError, w)
       | Some ss \<Rightarrow>
          (case stream_write ss (request @ CRLF) w of
             (Some e, w1) \<Rightarrow> (Inl e, w1)
           | (None, w1) \<Rightarrow>
              (case stream_flush ss w1 of
                 (Some e, w2) \<Rightarrow> (Inl e, w2)
               | (None, w2) \<Rightarrow>
                  (case recv_stream m of
                     None \<Rightarrow> (Inl AttributeError, w2)
                   | Some rs \<Rightarrow> stream_readline rs w2)))))"

text \<open>
  The \<^verbatim>\<open>try\<close> block of \<^verbatim>\<open>send\<close>.  Its value is that of
  \<^verbatim>\<open>response and response.type == 'ok'\<close>: \<open>None\<close> (Python's None) when the response did
  not parse, else the comparison.
\<close>

definition send_try ::
  "pylib \<Rightarrow> string \<Rightarrow> string \<Rightarrow> DirectMessenger \<times> world \<Rightarrow> (exn + bool option) \<times> world" where
  "send_try lib msg rcpt s =
     (case s of (m, w) \<Rightarrow>
      (case time_str w of (now, w1) \<Rightarrow>
       (case exchange (create_direct_message lib (token m) msg rcpt now) (m, w1) of
          (Inl e, w2) \<Rightarrow> (Inl e, w2)
        | (Inr line, w2) \<Rightarrow>
            (Inr (case parse_response lib line of
                    None \<Rightarrow> None
                  | Some response \<Rightarrow> Some (sr_type response = JStr ''ok'')), w2))))"

definition send_body ::
  "pylib \<Rightarrow> string \<Rightarrow> string \<Rightarrow> DirectMessenger \<times> world \<Rightarrow> bool option \<times> DirectMessenger \<times> world" where
  "send_body lib msg rcpt s =
     (case send_try lib msg rcpt s of
        (Inl e, w') \<Rightarrow> (Some False, fst s, w')
      | (Inr r, w') \<Rightarrow> (r, fst s, w'))"

definition send ::
  "pylib \<Rightarrow> string \<Rightarrow> string \<Rightarrow> DirectMessenger \<times> world \<Rightarrow> bool option \<times> DirectMessenger \<times> world" where
  "send lib msg rcpt s =
     (if \<not> truthy (token (fst s)) then
        (case connect lib s of
           (False, s') \<Rightarrow> (Some False, s')
         | (True, s') \<Rightarrow> send_body lib msg rcpt s')
      else send_body lib msg rcpt s)"

text \<open>The loop bodies of \<^verbatim>\<open>retrieve_new\<close> and \<^verbatim>\<open>retrieve_all\<close>, for one raw record.\<close>

definition new_record :: "json \<Rightarrow> exn + DirectMessage" where
  "new_record msg =
     (case py_get msg ''message'' JNull of
        Inl e \<Rightarrow> Inl e
      | Inr content \<Rightarrow>
         (case py_get msg ''from'' JNull of
            Inl e \<Rightarrow> Inl e
          | Inr sender \<Rightarrow>
             (case py_get msg ''timestamp'' JNull of
                Inl e \<Rightarrow> Inl e
              | Inr ts \<Rightarrow> Inr (DirectMessage sender content ts))))"

definition all_record :: "json \<Rightarrow> exn + DirectMessage" where
  "all_record msg =
     (case py_get msg ''message'' JNull of
        Inl e \<Rightarrow> Inl e
      | Inr content \<Rightarrow>
         (case py_contains msg ''from'' of
            Inl e \<Rightarrow> Inl e
          | Inr has_from \<Rightarrow>
             (case (if has_from then py_get msg ''from'' JNull
                    else py_get msg ''recipient'' JNull) of
                Inl e \<Rightarrow> Inl e
              | Inr other \<Rightarrow>
                 (case py_get msg ''timestamp'' JNull of
                    Inl e \<Rightarrow> Inl e
                  | Inr ts \<Rightarrow> Inr (DirectMessage other content ts)))))"

text \<open>The \<^verbatim>\<open>for\<close> loop appending to \<^verbatim>\<open>messages\<close>; an exception abandons the list.\<close>

fun collect :: "(json \<Rightarrow> exn + DirectMessage) \<Rightarrow> json list \<Rightarrow> DirectMessage list
                  \<Rightarrow> exn + DirectMessage list" where
  "collect f [] messages = Inr messages"
| "collect f (msg # rest) messages =
     (case f msg of Inl e \<Rightarrow> Inl e | Inr dm \<Rightarrow> collect f rest (messages @ [dm]))"

definition retrieve_try ::
  "pylib \<Rightarrow> string \<Rightarrow> (json \<Rightarrow> exn + DirectMessage) \<Rightarrow> DirectMessenger \<times> world
     \<Rightarrow> (exn + DirectMessage list) \<times> world" where
  "retrieve_try lib request f s =
     (case exchange request s of
        (Inl e, w') \<Rightarrow> (Inl e, w')
      | (Inr line, w') \<Rightarrow>
          (case parse_messages lib line of
             None \<Rightarrow> (Inr [], w')
           | Some response \<Rightarrow>
               if mr_type response = JStr ''ok'' then
                 (case py_iter (mr_messages response) of
                    Inl e \<Rightarrow> (Inl e, w')
                  | Inr raw \<Rightarrow> (collect f raw [], w'))
               else (Inr [], w')))"

definition retrieve_body ::
  "pylib \<Rightarrow> (pylib \<Rightarrow> json \<Rightarrow> string) \<Rightarrow> (json \<Rightarrow> exn + DirectMessage) \<Rightarrow> DirectMessenger \<times> world
     \<Rightarrow> DirectMessage list \<times> DirectMessenger \<times> world" where
  "retrieve_body lib req f s =
     (case retrieve_try lib (req lib (token (fst s))) f s of
        (Inl e, w') \<Rightarrow> ([], fst s, w')
      | (Inr messages, w') \<Rightarrow> (messages, fst s, w'))"

definition retrieve_new ::
  "pylib \<Rightarrow> DirectMessenger \<times> world \<Rightarrow> DirectMessage list \<times> DirectMessenger \<times> world" where
  "retrieve_new lib s =
     (if \<not> truthy (token (fst s)) then
        (case connect lib s of
           (False, s') \<Rightarrow> ([], s')
         | (True, s') \<Rightarrow> retrieve_body lib request_unread_messages new_record s')
      else retrieve_body lib request_unread_messages new_record s)"

definition retrieve_all ::
  "pylib \<Rightarrow> DirectMessenger \<times> world \<Rightarrow> DirectMessage list \<times> DirectMessenger \<times> world" where
  "retrieve_all lib s =
     (if \<not> truthy (token (fst s)) then
        (case connect lib s of
           (False, s') \<Rightarrow> ([], s')
         | (True, s') \<Rightarrow> retrieve_body lib request_all_messages all_record s')
      else retrieve_body lib request_all_messages all_record s)"

section \<open>database.py: the pending queue and the history\<close>

text \<open>
  Every gateway call opens a connection of its own (\<^verbatim>\<open>get_connection\<close>) and commits
  when its \<^verbatim>\<open>with\<close> block ends.  A call is modelled by the SQL statement it executes:
  the statement takes effect unless it violates a constraint of the schema, or finds the
  file locked.  A statement that writes needs the write lock of the database file; while
  another connection holds a write that is not committed, it waits out the timeout and
  raises OperationalError (database is locked).  Contention between the threads and I/O
  failures are outside the model, and the table of users is not needed here.
  \<open>next_pending_id\<close> is the AUTOINCREMENT counter of \<^verbatim>\<open>pending_messages\<close>;
  \<open>attempts\<close> has the schema's \<^verbatim>\<open>DEFAULT 0\<close>.
\<close>

record message_row =
  m_user_id :: nat
  m_sender :: string
  m_recipient :: string
  m_content :: string
  m_timestamp :: real

record pending_row =
  pending_id :: nat
  p_user_id :: nat
  p_recipient :: string
  p_content :: string
  p_timestamp :: real
  attempts :: int

record MessageDatabase =
  messages :: "message_row list"
  contacts :: "(nat \<times> string) list"
  pending_messages :: "pending_row list"
  next_pending_id :: nat

text \<open>\<^verbatim>\<open>_init_database\<close> on a new file.\<close>

definition init_database :: MessageDatabase where
  "init_database = \<lparr>messages = [], contacts = [], pending_messages = [], next_pending_id = 1\<rparr>"

text \<open>
  \<^verbatim>\<open>add_contact\<close>: \<^verbatim>\<open>INSERT OR IGNORE\<close> under \<^verbatim>\<open>UNIQUE(user_id, friend_username)\<close>,
  on a connection of its own.  \<open>write_locked\<close> says that another connection, the
  caller's, holds a write that is not committed.  The handler of \<^verbatim>\<open>add_contact\<close> catches
  IntegrityError only, so the OperationalError leaves through the caller.
\<close>

definition add_contact :: "bool \<Rightarrow> nat \<Rightarrow> string \<Rightarrow> MessageDatabase \<Rightarrow> exn + MessageDatabase" where
  "add_contact write_locked uid friend d =
     (if write_locked then Inl OperationalError
      else if (uid, friend) \<in> set (contacts d) then Inr d
      else Inr (d\<lparr>contacts := contacts d @ [(uid, friend)]\<rparr>))"

text \<open>
  \<^verbatim>\<open>add_message\<close>: \<^verbatim>\<open>user_id\<close> and \<^verbatim>\<open>sender\<close> are \<^verbatim>\<open>NOT NULL\<close>.  The call
  of \<^verbatim>\<open>add_contact\<close> stands inside the \<^verbatim>\<open>with\<close> block, after the INSERT and before
  its commit: the second connection finds the file locked by the first, and the exception
  rolls the INSERT back on its way out.
\<close>

definition add_message ::
  "nat option \<Rightarrow> string option \<Rightarrow> string \<Rightarrow> string \<Rightarrow> real \<Rightarrow> MessageDatabase
     \<Rightarrow> exn + MessageDatabase" where
  "add_message uid sender rcpt content ts d =
     (case (uid, sender) of
        (Some u, Some s) \<Rightarrow>
          (case add_contact True u (if s \<noteq> rcpt then rcpt else s)
                  (d\<lparr>messages := messages d @
                        [\<lparr>m_user_id = u, m_sender = s, m_recipient = rcpt,
                          m_content = content, m_timestamp = ts\<rparr>]\<rparr>) of
             Inl e \<Rightarrow> Inl e
           | Inr d' \<Rightarrow> Inr d')
      | _ \<Rightarrow> Inl IntegrityError)"

definition add_pending_message ::
  "nat option \<Rightarrow> string \<Rightarrow> string \<Rightarrow> real \<Rightarrow> MessageDatabase \<Rightarrow> exn + MessageDatabase" where
  "add_pending_message uid rcpt content ts d =
     (case uid of
        None \<Rightarrow> Inl IntegrityError
      | Some u \<Rightarrow>
          Inr (d\<lparr>pending_messages := pending_messages d @
                     [\<lparr>pending_id = next_pending_id d, p_user_id = u, p_recipient = rcpt,
                       p_content = content, p_timestamp = ts, attempts = 0\<rparr>],
                   next_pending_id := Suc (next_pending_id d)\<rparr>))"

text \<open>
  \<^verbatim>\<open>WHERE user_id = ? AND attempts < 3 ORDER BY timestamp ASC\<close>.  A \<^verbatim>\<open>NULL\<close> user
  matches no row.  SQLite leaves the order of rows with equal timestamps open; here they
  keep their insertion order.
\<close>

definition get_pending_messages :: "nat option \<Rightarrow> MessageDatabase \<Rightarrow> pending_row list" where
  "get_pending_messages uid d =
     sort_key p_timestamp
       (filter (\<lambda>r. Some (p_user_id r) = uid \<and> attempts r < 3) (pending_messages d))"

definition mark_pending_sent :: "nat \<Rightarrow> MessageDatabase \<Rightarrow> MessageDatabase" where
  "mark_pending_sent pid d =
     d\<lparr>pending_messages := filter (\<lambda>r. pending_id r \<noteq> pid) (pending_messages d)\<rparr>"

definition increment_pending_attempts :: "nat \<Rightarrow> MessageDatabase \<Rightarrow> MessageDatabase" where
  "increment_pending_attempts pid d =
     d\<lparr>pending_messages :=
         map (\<lambda>r. if pending_id r = pid then r\<lparr>attempts := attempts r + 1\<rparr> else r)
             (pending_messages d)\<rparr>"

definition clear_pending_messages :: "nat \<Rightarrow> MessageDatabase \<Rightarrow> MessageDatabase" where
  "clear_pending_messages uid d =
     d\<lparr>pending_messages := filter (\<lambda>r. p_user_id r \<noteq> uid) (pending_messages d)\<rparr>"

section \<open>messenger.py: the coordinator\<close>

datatype ConnectionState = CONNECTED | DISCONNECTED | RECONNECTING | OFFLINE

text \<open>
  The dict put on \<^verbatim>\<open>outgoing_queue\<close>.  The worker reads two of its keys with
  \<^verbatim>\<open>msg_data.get('is_retry', False)\<close> and \<^verbatim>\<open>msg_data.get('pending_id')\<close>, so an
  absent key is \<open>False\<close> and \<open>None\<close>.
\<close>

record msg_data =
  msg_recipient :: string
  msg_content :: string
  msg_timestamp :: real
  is_retry :: bool
  msg_pending_id :: "nat option"

datatype notice = sent_success string | new_message json json

record MessengerApp =
  max_retries :: int
  server :: string
  db :: MessageDatabase
  incoming_queue :: "notice list"
  outgoing_queue :: "msg_data list"
  messenger :: "DirectMessenger option"
  connection_state :: ConnectionState
  retry_count :: nat
  backoff_time :: int
  user_id :: "nat option"
  app_username :: "string option"
  app_password :: "string option"

text \<open>\<^verbatim>\<open>MessengerApp.__init__\<close>, for a configuration and the database it opens.\<close>

definition MessengerApp_init :: "int \<Rightarrow> string \<Rightarrow> MessageDatabase \<Rightarrow> MessengerApp" where
  "MessengerApp_init cfg_max_retries cfg_server d =
     \<lparr>max_retries = cfg_max_retries,
      server = cfg_server,
      db = d,
      incoming_queue = [],
      outgoing_queue = [],
      messenger = None,
      connection_state = DISCONNECTED,
      retry_count = 0,
      backoff_time = 1,
      user_id = None,
      app_username = None,
      app_password = None\<rparr>"

text \<open>The label of the status bar is not part of the model.\<close>

definition update_connection_state :: "ConnectionState \<Rightarrow> MessengerApp \<Rightarrow> MessengerApp" where
  "update_connection_state st a = a\<lparr>connection_state := st\<rparr>"

text \<open>
  \<^verbatim>\<open>_connect\<close>: a new DirectMessenger each time.  \<open>connect\<close> does not raise, so the
  handler of \<^verbatim>\<open>_connect\<close> has no branch.
\<close>

definition app_connect :: "pylib \<Rightarrow> MessengerApp \<times> world \<Rightarrow> bool \<times> MessengerApp \<times> world" where
  "app_connect lib s =
     (case s of (a, w) \<Rightarrow>
      (case connect lib (DirectMessenger_init (Some (server a)) (app_username a) (app_password a), w) of
         (True, m, w') \<Rightarrow>
           (True, (update_connection_state CONNECTED (a\<lparr>messenger := Some m\<rparr>))\<lparr>retry_count := 0\<rparr>, w')
       | (False, m, w') \<Rightarrow>
           (False, update_connection_state DISCONNECTED (a\<lparr>messenger := Some m\<rparr>), w')))"

definition retry_message :: "pending_row \<Rightarrow> msg_data" where
  "retry_message msg =
     \<lparr>msg_recipient = p_recipient msg,
      msg_content = p_content msg,
      msg_timestamp = p_timestamp msg,
      is_retry = True,
      msg_pending_id = Some (pending_id msg)\<rparr>"

definition flush_pending_messages :: "MessengerApp \<Rightarrow> MessengerApp" where
  "flush_pending_messages a =
     a\<lparr>outgoing_queue :=
         outgoing_queue a @ map retry_message (get_pending_messages (user_id a) (db a))\<rparr>"

text \<open>The local variable \<^verbatim>\<open>backoff\<close> of \<^verbatim>\<open>_try_reconnect\<close>.\<close>

definition backoff :: "MessengerApp \<Rightarrow> int" where
  "backoff a = min (backoff_time a * 2 ^ retry_count a) 60"

definition try_reconnect :: "pylib \<Rightarrow> MessengerApp \<times> world \<Rightarrow> MessengerApp \<times> world" where
  "try_reconnect lib s =
     (case s of (a, w) \<Rightarrow>
      if int (retry_count a) \<ge> max_retries a then (update_connection_state OFFLINE a, w)
      else
        (let a1 = update_connection_state RECONNECTING a;
             w1 = sleep (backoff a1) w;
             a2 = a1\<lparr>retry_count := retry_count a1 + 1\<rparr>
         in case app_connect lib (a2, w1) of
              (True, a3, w3) \<Rightarrow> (flush_pending_messages a3, w3)
            | (False, a3, w3) \<Rightarrow> (a3, w3)))"

text \<open>
  \<^verbatim>\<open>_handle_send_failure\<close>.  An exception of the gateway leaves through the caller, the
  worker loop, whose handler logs it; it is returned beside the state reached.
\<close>

definition handle_send_failure ::
  "pylib \<Rightarrow> msg_data \<Rightarrow> MessengerApp \<times> world \<Rightarrow> exn option \<times> MessengerApp \<times> world" where
  "handle_send_failure lib m s =
     (case s of (a, w) \<Rightarrow>
      if \<not> is_retry m then
        (case add_pending_message (user_id a) (msg_recipient m) (msg_content m) (msg_timestamp m) (db a) of
           Inl e \<Rightarrow> (Some e, a, w)
         | Inr d \<Rightarrow> (None, try_reconnect lib (update_connection_state DISCONNECTED (a\<lparr>db := d\<rparr>), w)))
      else (None, try_reconnect lib (update_connection_state DISCONNECTED a, w)))"

text \<open>
  One pass of the loop of \<^verbatim>\<open>_network_worker\<close> with the stop event not set.  An empty
  queue is the timeout of \<^verbatim>\<open>get\<close>.  \<^verbatim>\<open>if pending_id\<close> is false for None and for 0.
  The handler at the end of the loop body logs whatever was raised and goes on.
\<close>

definition network_worker :: "pylib \<Rightarrow> MessengerApp \<times> world \<Rightarrow> MessengerApp \<times> world" where
  "network_worker lib s =
     (case s of (a, w) \<Rightarrow>
      (case outgoing_queue a of
         [] \<Rightarrow> (a, w)
       | m # rest \<Rightarrow>
          (let a0 = a\<lparr>outgoing_queue := rest\<rparr> in
           if connection_state a0 = CONNECTED then
             (case messenger a0 of
                None \<Rightarrow> snd (handle_send_failure lib m (a0, w))
              | Some dm \<Rightarrow>
                 (case send lib (msg_content m) (msg_recipient m) (dm, w) of
                    (r, dm', w') \<Rightarrow>
                      (let a1 = a0\<lparr>messenger := Some dm'\<rparr> in
                       if r = Some True then
                         (case add_message (user_id a1) (app_username a1) (msg_recipient m)
                                 (msg_content m) (msg_timestamp m) (db a1) of
                            Inl e \<Rightarrow> (a1, w')
                          | Inr d \<Rightarrow>
                             (a1\<lparr>db := (case msg_pending_id m of
                                           None \<Rightarrow> d
                                         | Some pid \<Rightarrow> if pid \<noteq> 0 then mark_pending_sent pid d else d),
                                   incoming_queue := incoming_queue a1 @ [sent_success (msg_recipient m)]\<rparr>,
                              w'))
                       else snd (handle_send_failure lib m (a1, w')))))
           else if \<not> is_retry m then
             (case add_pending_message (user_id a0) (msg_recipient m) (msg_content m)
                     (msg_timestamp m) (db a0) of
                Inl e \<Rightarrow> (a0, w)
              | Inr d \<Rightarrow> (a0\<lparr>db := d\<rparr>, w))
           else (a0, w))))"

text \<open>
  The states the program can be in.  The worker pass, \<^verbatim>\<open>_try_reconnect\<close> as the poll
  thread calls it from its handler (only while Connected), the login dialog and
  \<^verbatim>\<open>_send_message\<close> are steps of their own.  Rule \<open>other\<close> stands for everything else
  that runs: the body of the poll loop, the remaining callbacks of the window, shutdown
  and the environment.  Of the shared state these write the history, the contacts, the
  result queue, the messenger object and the world, and they are left free to write
  anything there.  A new process starts on a new database file or on the file an
  earlier process left.
\<close>

inductive reachable :: "pylib \<Rightarrow> MessengerApp \<times> world \<Rightarrow> bool" for lib :: pylib where
  start: "reachable lib (MessengerApp_init cfg_max_retries cfg_server init_database, w)"
| restart: "reachable lib (a, w) \<Longrightarrow>
     reachable lib (MessengerApp_init cfg_max_retries cfg_server (db a), w')"
| login: "reachable lib (a, w) \<Longrightarrow>
     reachable lib (snd (app_connect lib
        (a\<lparr>server := srv, user_id := Some uid, app_username := Some u, app_password := Some p\<rparr>, w)))"
| submit: "reachable lib (a, w) \<Longrightarrow>
     reachable lib
       (a\<lparr>outgoing_queue := outgoing_queue a @
            [\<lparr>msg_recipient = rcpt, msg_content = content, msg_timestamp = ts,
              is_retry = False, msg_pending_id = None\<rparr>]\<rparr>, w)"
| worker: "reachable lib s \<Longrightarrow> reachable lib (network_worker lib s)"
| poll_failure: "reachable lib (a, w) \<Longrightarrow> connection_state a = CONNECTED \<Longrightarrow>
     reachable lib (try_reconnect lib (update_connection_state DISCONNECTED a, w))"
| other: "reachable lib (a, w) \<Longrightarrow>
     reachable lib
       (a\<lparr>messenger := dm, incoming_queue := iq,
          db := (db a)\<lparr>messages := ms, contacts := cs\<rparr>\<rparr>, w')"


section \<open>Fixtures\<close>

text \<open>
  The lines the tests of the repository feed the client (\<^verbatim>\<open>test_ds_protocol.py\<close>,
  \<^verbatim>\<open>test_ds_messenger.py\<close>), and a codec that knows these lines and rejects every other
  one.  Its \<open>json_dumps\<close> only names the request: the first key of the object.
\<close>

definition join_ok_line :: string where
  \<open>join_ok_line = ''{"response": {"type": "ok", "message": "Join successful", "token": "T1"}}''\<close>

definition error_line :: string where
  \<open>error_line = ''{"response": {"type": "error", "message": "Invalid credentials"}}''\<close>

definition ok_line :: string where
  \<open>ok_line = ''{"response": {"type": "ok"}}''\<close>

definition null_line :: string where
  \<open>null_line = ''{"response": null}''\<close>

definition invalid_key_line :: string where
  \<open>invalid_key_line = ''{"invalid_key": {}}''\<close>

definition invalid_json_line :: string where
  \<open>invalid_json_line = ''not valid json''\<close>

definition batch_new_line :: string where
  \<open>batch_new_line = ''{"response": {"type": "ok", "messages": [{"message": "Test message", "from": "sender", "timestamp": "1234567890"}]}}''\<close>

definition batch_all_line :: string where
  \<open>batch_all_line = ''{"response": {"type": "ok", "messages": [{"message": "Incoming", "from": "sender", "timestamp": "1234567890"}, {"message": "Outgoing", "recipient": "recipient", "timestamp": "1234567891"}]}}''\<close>

definition batch_new_records :: "json list" where
  "batch_new_records =
     [JObj [(''message'', JStr ''Test message''), (''from'', JStr ''sender''),
            (''timestamp'', JStr ''1234567890'')]]"

definition batch_all_records :: "json list" where
  "batch_all_records =
     [JObj [(''message'', JStr ''Incoming''), (''from'', JStr ''sender''),
            (''timestamp'', JStr ''1234567890'')],
      JObj [(''message'', JStr ''Outgoing''), (''recipient'', JStr ''recipient''),
            (''timestamp'', JStr ''1234567891'')]]"

definition test_loads :: "string \<Rightarrow> json option" where
  "test_loads s =
     (if s = join_ok_line
      then Some (JObj [(''response'', JObj [(''type'', JStr ''ok''),
                                            (''message'', JStr ''Join successful''),
                                            (''token'', JStr ''T1'')])])
      else if s = error_line
      then Some (JObj [(''response'', JObj [(''type'', JStr ''error''),
                                            (''message'', JStr ''Invalid credentials'')])])
      else if s = ok_line
      then Some (JObj [(''response'', JObj [(''type'', JStr ''ok'')])])
      else if s = null_line
      then Some (JObj [(''response'', JNull)])
      else if s = invalid_key_line
      then Some (JObj [(''invalid_key'', JObj [])])
      else if s = batch_new_line
      then Some (JObj [(''response'', JObj [(''type'', JStr ''ok''),
                                            (''messages'', JArr batch_new_records)])])
      else if s = batch_all_line
      then Some (JObj [(''response'', JObj [(''type'', JStr ''ok''),
                                            (''messages'', JArr batch_all_records)])])
      else None)"

definition test_lib :: pylib where
  "test_lib =
     \<lparr>json_loads = test_loads,
      json_dumps = (\<lambda>j. case j of JObj ((k, v) # kvs) \<Rightarrow> k | _ \<Rightarrow> [])\<rparr>"

text \<open>A world in which nothing has happened yet and the environment answers by default.\<close>

definition quiet_world :: world where
  "quiet_world =
     \<lparr>connect_results = [], send_results = [], recv_results = [], close_results = [],
      clock = [], next_handle = 0, open_handles = {}, calls = []\<rparr>"

text \<open>
  A server that answers the successive connection attempts with \<open>conns\<close> and sends
  the lines \<open>lines\<close>, one for each \<^verbatim>\<open>readline\<close>.
\<close>

definition server_world :: "exn option list \<Rightarrow> string list \<Rightarrow> world" where
  "server_world conns lines = quiet_world\<lparr>connect_results := conns, recv_results := map Inr lines\<rparr>"

definition test_messenger :: DirectMessenger where
  "test_messenger = DirectMessenger_init None (Some ''testuser'') (Some ''testpass'')"

text \<open>The coordinator after the login dialog has set the user, on a database with three queued rows.\<close>

definition test_app :: MessengerApp where
  "test_app =
     (MessengerApp_init 5 ''127.0.0.1'' init_database)
       \<lparr>user_id := Some 1, app_username := Some ''testuser'', app_password := Some ''testpass''\<rparr>"

definition test_message :: msg_data where
  "test_message =
     \<lparr>msg_recipient = ''bob'', msg_content = ''hi'', msg_timestamp = 1700000000,
      is_retry = False, msg_pending_id = None\<rparr>"

definition test_pending :: "pending_row list" where
  "test_pending =
     [\<lparr>pending_id = 1, p_user_id = 1, p_recipient = ''bob'', p_content = ''first'',
       p_timestamp = 1700000002, attempts = 0\<rparr>,
      \<lparr>pending_id = 2, p_user_id = 1, p_recipient = ''bob'', p_content = ''given up'',
       p_timestamp = 1700000001, attempts = 3\<rparr>,
      \<lparr>pending_id = 3, p_user_id = 2, p_recipient = ''carol'', p_content = ''other user'',
       p_timestamp = 1700000000, attempts = 0\<rparr>,
      \<lparr>pending_id = 4, p_user_id = 1, p_recipient = ''dave'', p_content = ''second'',
       p_timestamp = 1700000001, attempts = 2\<rparr>]"

section \<open>The decoders\<close>

lemma py_get_not_obj: "(\<forall>kv. j \<noteq> JObj kv) \<Longrightarrow> py_get j k d = Inl AttributeError"
  by (cases j) simp_all

lemma parse_response_ok:
  "json_loads lib line = Some (JObj kv) \<Longrightarrow> map_of kv ''response'' = Some (JObj resp) \<Longrightarrow>
   parse_response lib line =
     Some (ServerResponse (case map_of resp ''type'' of None \<Rightarrow> JNull | Some v \<Rightarrow> v)
                          (case map_of resp ''message'' of None \<Rightarrow> JStr '''' | Some v \<Rightarrow> v)
                          (case map_of resp ''token'' of None \<Rightarrow> JStr '''' | Some v \<Rightarrow> v))"
  by (simp add: parse_response_def parse_response_try_def)

lemma parse_messages_ok:
  "json_loads lib line = Some (JObj kv) \<Longrightarrow> map_of kv ''response'' = Some (JObj resp) \<Longrightarrow>
   parse_messages lib line =
     Some (MessageResponse (case map_of resp ''type'' of None \<Rightarrow> JNull | Some v \<Rightarrow> v)
                           (case map_of resp ''messages'' of None \<Rightarrow> JArr [] | Some v \<Rightarrow> v))"
  by (simp add: parse_messages_def parse_messages_try_def)

lemma parse_response_invalid_json:
  "json_loads lib line = None \<Longrightarrow> parse_response lib line = None"
  by (simp add: parse_response_def parse_response_try_def)

lemma parse_response_no_response_key:
  "json_loads lib line = Some (JObj kv) \<Longrightarrow> map_of kv ''response'' = None \<Longrightarrow>
   parse_response lib line = None"
  by (simp add: parse_response_def parse_response_try_def)

lemma parse_response_not_dict:
  "json_loads lib line = Some j \<Longrightarrow> (\<forall>kv. j \<noteq> JObj kv) \<Longrightarrow> parse_response lib line = None"
  by (cases j) (simp_all add: parse_response_def parse_response_try_def split: bool.splits)

lemma parse_response_response_not_dict:
  "json_loads lib line = Some (JObj kv) \<Longrightarrow> map_of kv ''response'' = Some r \<Longrightarrow>
   (\<forall>resp. r \<noteq> JObj resp) \<Longrightarrow> parse_response lib line = None"
  by (simp add: parse_response_def parse_response_try_def py_get_not_obj)

lemma parse_messages_invalid_json:
  "json_loads lib line = None \<Longrightarrow> parse_messages lib line = None"
  by (simp add: parse_messages_def parse_messages_try_def)

lemma parse_messages_no_response_key:
  "json_loads lib line = Some (JObj kv) \<Longrightarrow> map_of kv ''response'' = None \<Longrightarrow>
   parse_messages lib line = None"
  by (simp add: parse_messages_def parse_messages_try_def)

lemma parse_messages_not_dict:
  "json_loads lib line = Some j \<Longrightarrow> (\<forall>kv. j \<noteq> JObj kv) \<Longrightarrow> parse_messages lib line = None"
  by (cases j) (simp_all add: parse_messages_def parse_messages_try_def split: bool.splits)

lemma parse_messages_response_not_dict:
  "json_loads lib line = Some (JObj kv) \<Longrightarrow> map_of kv ''response'' = Some r \<Longrightarrow>
   (\<forall>resp. r \<noteq> JObj resp) \<Longrightarrow> parse_messages lib line = None"
  by (simp add: parse_messages_def parse_messages_try_def py_get_not_obj)

text \<open>
  Claim C3.  \<open>parse_response\<close> and \<open>parse_messages\<close> return to the caller on every line
  (each exception of the \<^verbatim>\<open>try\<close> block ends in the \<^verbatim>\<open>return None\<close>), and the value is
  None on every malformed line: a line that is not valid JSON, a document without a
  \<^verbatim>\<open>response\<close> entry (a dict lacking the key, or no dict at all), and a
  \<^verbatim>\<open>response\<close> that is null or anything else than an object.  On the remaining
  lines both decode, and \<open>parse_messages\<close> yields the empty list where the
  \<^verbatim>\<open>messages\<close> array is absent.
\<close>

theorem decoders_no_result_on_malformed:
  "(json_loads lib line = None \<longrightarrow>
      parse_response lib line = None \<and> parse_messages lib line = None)
   \<and> (\<forall>j. json_loads lib line = Some j \<and> (\<forall>kv. j = JObj kv \<longrightarrow> map_of kv ''response'' = None) \<longrightarrow>
      parse_response lib line = None \<and> parse_messages lib line = None)
   \<and> (\<forall>kv r. json_loads lib line = Some (JObj kv) \<and> map_of kv ''response'' = Some r
         \<and> (\<forall>resp. r \<noteq> JObj resp) \<longrightarrow>
      parse_response lib line = None \<and> parse_messages lib line = None)
   \<and> (\<forall>kv resp. json_loads lib line = Some (JObj kv) \<and> map_of kv ''response'' = Some (JObj resp) \<longrightarrow>
      parse_response lib line \<noteq> None \<and>
      parse_messages lib line =
        Some (MessageResponse (case map_of resp ''type'' of None \<Rightarrow> JNull | Some v \<Rightarrow> v)
                              (case map_of resp ''messages'' of None \<Rightarrow> JArr [] | Some v \<Rightarrow> v)))"
proof (intro conjI allI impI)
  assume "json_loads lib line = None"
  then show "parse_response lib line = None" "parse_messages lib line = None"
    by (rule parse_response_invalid_json, rule parse_messages_invalid_json)
next
  fix j
  assume a: "json_loads lib line = Some j \<and> (\<forall>kv. j = JObj kv \<longrightarrow> map_of kv ''response'' = None)"
  show "parse_response lib line = None"
  proof (cases "\<exists>kv. j = JObj kv")
    case True
    with a show ?thesis by (auto intro: parse_response_no_response_key)
  next
    case False
    with a show ?thesis by (auto intro: parse_response_not_dict)
  qed
  show "parse_messages lib line = None"
  proof (cases "\<exists>kv. j = JObj kv")
    case True
    with a show ?thesis by (auto intro: parse_messages_no_response_key)
  next
    case False
    with a show ?thesis by (auto intro: parse_messages_not_dict)
  qed
next
  fix kv r
  assume a: "json_loads lib line = Some (JObj kv) \<and> map_of kv ''response'' = Some r
         \<and> (\<forall>resp. r \<noteq> JObj resp)"
  then show "parse_response lib line = None"
    using parse_response_response_not_dict by blast
  from a show "parse_messages lib line = None"
    using parse_messages_response_not_dict by blast
next
  fix kv resp
  assume a: "json_loads lib line = Some (JObj kv) \<and> map_of kv ''response'' = Some (JObj resp)"
  then show "parse_response lib line \<noteq> None"
    by (simp add: parse_response_ok)
  from a show "parse_messages lib line =
        Some (MessageResponse (case map_of resp ''type'' of None \<Rightarrow> JNull | Some v \<Rightarrow> v)
                              (case map_of resp ''messages'' of None \<Rightarrow> JArr [] | Some v \<Rightarrow> v))"
    by (simp add: parse_messages_ok)
qed

lemma test_loads_simps:
  "json_loads test_lib invalid_json_line = None"
  "json_loads test_lib invalid_key_line = Some (JObj [(''invalid_key'', JObj [])])"
  "json_loads test_lib null_line = Some (JObj [(''response'', JNull)])"
  "json_loads test_lib ok_line = Some (JObj [(''response'', JObj [(''type'', JStr ''ok'')])])"
  "json_loads test_lib error_line =
     Some (JObj [(''response'', JObj [(''type'', JStr ''error''),
                                      (''message'', JStr ''Invalid credentials'')])])"
  "json_loads test_lib join_ok_line =
     Some (JObj [(''response'', JObj [(''type'', JStr ''ok''),
                                      (''message'', JStr ''Join successful''),
                                      (''token'', JStr ''T1'')])])"
  "json_loads test_lib batch_new_line =
     Some (JObj [(''response'', JObj [(''type'', JStr ''ok''),
                                      (''messages'', JArr batch_new_records)])])"
  "json_loads test_lib batch_all_line =
     Some (JObj [(''response'', JObj [(''type'', JStr ''ok''),
                                      (''messages'', JArr batch_all_records)])])"
  by (simp_all add: test_lib_def test_loads_def join_ok_line_def error_line_def ok_line_def
        null_line_def invalid_key_line_def invalid_json_line_def batch_new_line_def
        batch_all_line_def)

theorem decoders_no_result_on_malformed_witness:
  "parse_response test_lib invalid_json_line = None
   \<and> parse_messages test_lib invalid_json_line = None
   \<and> parse_response test_lib invalid_key_line = None
   \<and> parse_messages test_lib invalid_key_line = None
   \<and> parse_response test_lib null_line = None
   \<and> parse_messages test_lib null_line = None
   \<and> parse_messages test_lib ok_line = Some (MessageResponse (JStr ''ok'') (JArr []))"
  using
    decoders_no_result_on_malformed [of test_lib invalid_json_line]
    decoders_no_result_on_malformed [of test_lib invalid_key_line]
    decoders_no_result_on_malformed [of test_lib null_line]
    decoders_no_result_on_malformed [of test_lib ok_line]
  by (simp add: test_loads_simps)

section \<open>Retrieving messages\<close>

lemma collect_all_ok:
  "(\<forall>x\<in>set raw. \<exists>d. f x = Inr d) \<Longrightarrow>
   \<exists>new. collect f raw acc = Inr (acc @ new) \<and> map f raw = map Inr new"
proof (induction raw arbitrary: acc)
  case Nil
  then show ?case by simp
next
  case (Cons x raw)
  then obtain d where d: "f x = Inr d" by auto
  from Cons obtain new where "collect f raw (acc @ [d]) = Inr ((acc @ [d]) @ new)"
    "map f raw = map Inr new" by fastforce
  with d show ?case by (intro exI [of _ "d # new"]) simp
qed

lemma collect_some_fail:
  "(\<exists>x\<in>set raw. \<exists>e. f x = Inl e) \<Longrightarrow> \<exists>e. collect f raw acc = Inl e"
proof (induction raw arbitrary: acc)
  case Nil
  then show ?case by simp
next
  case (Cons x raw)
  show ?case
  proof (cases "f x")
    case (Inl e)
    then show ?thesis by simp
  next
    case (Inr d)
    with Cons.prems have "\<exists>x\<in>set raw. \<exists>e. f x = Inl e" by auto
    from Cons.IH [OF this] Inr show ?thesis by simp
  qed
qed

lemma collect_Inr:
  "collect f raw acc = Inr ms \<Longrightarrow> \<exists>new. ms = acc @ new \<and> map f raw = map Inr new"
proof -
  assume a: "collect f raw acc = Inr ms"
  have "\<forall>x\<in>set raw. \<exists>d. f x = Inr d"
  proof (rule ccontr)
    assume "\<not> (\<forall>x\<in>set raw. \<exists>d. f x = Inr d)"
    then have "\<exists>x\<in>set raw. \<exists>e. f x = Inl e" by (metis sum.exhaust)
    from collect_some_fail [OF this, of acc] a show False by simp
  qed
  from collect_all_ok [OF this, of acc] a show ?thesis by auto
qed

lemma new_record_obj:
  "new_record (JObj kv) =
     Inr (DirectMessage (case map_of kv ''from'' of None \<Rightarrow> JNull | Some v \<Rightarrow> v)
                        (case map_of kv ''message'' of None \<Rightarrow> JNull | Some v \<Rightarrow> v)
                        (case map_of kv ''timestamp'' of None \<Rightarrow> JNull | Some v \<Rightarrow> v))"
  by (simp add: new_record_def)

lemma new_record_not_obj: "(\<forall>kv. x \<noteq> JObj kv) \<Longrightarrow> new_record x = Inl AttributeError"
  by (simp add: new_record_def py_get_not_obj)

lemma all_record_obj:
  "all_record (JObj kv) =
     Inr (DirectMessage (case map_of kv ''from'' of
                           None \<Rightarrow> (case map_of kv ''recipient'' of None \<Rightarrow> JNull | Some v \<Rightarrow> v)
                         | Some v \<Rightarrow> v)
                        (case map_of kv ''message'' of None \<Rightarrow> JNull | Some v \<Rightarrow> v)
                        (case map_of kv ''timestamp'' of None \<Rightarrow> JNull | Some v \<Rightarrow> v))"
  by (simp add: all_record_def split: option.splits)

lemma all_record_not_obj: "(\<forall>kv. x \<noteq> JObj kv) \<Longrightarrow> all_record x = Inl AttributeError"
  by (simp add: all_record_def py_get_not_obj)

text \<open>What the body of a retrieve returns, by the outcome of the exchange.\<close>

lemma retrieve_body_transport_error:
  "fst (exchange (req lib (token (fst s))) s) = Inl e \<Longrightarrow> fst (retrieve_body lib req f s) = []"
  by (auto simp add: retrieve_body_def retrieve_try_def split: prod.splits sum.splits)

lemma retrieve_body_undecodable:
  "fst (exchange (req lib (token (fst s))) s) = Inr line \<Longrightarrow> parse_messages lib line = None \<Longrightarrow>
   fst (retrieve_body lib req f s) = []"
  by (auto simp add: retrieve_body_def retrieve_try_def split: prod.splits sum.splits)

lemma retrieve_body_not_ok:
  "fst (exchange (req lib (token (fst s))) s) = Inr line \<Longrightarrow> parse_messages lib line = Some resp \<Longrightarrow>
   mr_type resp \<noteq> JStr ''ok'' \<Longrightarrow> fst (retrieve_body lib req f s) = []"
  by (auto simp add: retrieve_body_def retrieve_try_def split: prod.splits sum.splits)

lemma retrieve_body_ok:
  "fst (exchange (req lib (token (fst s))) s) = Inr line \<Longrightarrow> parse_messages lib line = Some resp \<Longrightarrow>
   mr_type resp = JStr ''ok'' \<Longrightarrow>
   fst (retrieve_body lib req f s) =
     (case py_iter (mr_messages resp) of
        Inl e \<Rightarrow> []
      | Inr raw \<Rightarrow> (case collect f raw [] of Inl e \<Rightarrow> [] | Inr ms \<Rightarrow> ms))"
  by (auto simp add: retrieve_body_def retrieve_try_def split: prod.splits sum.splits)

lemma retrieve_body_ok_list:
  assumes "fst (exchange (req lib (token (fst s))) s) = Inr line"
    and "parse_messages lib line = Some resp" and "mr_type resp = JStr ''ok''"
    and "mr_messages resp = JArr raw" and "\<forall>x\<in>set raw. \<exists>d. f x = Inr d"
  shows "map f raw = map Inr (fst (retrieve_body lib req f s))"
proof -
  from collect_all_ok [OF assms(5), of "[]"] obtain new
    where "collect f raw [] = Inr new" "map f raw = map Inr new" by auto
  with retrieve_body_ok [where req=req and lib=lib and s=s and f=f, OF assms(1-3)] assms(4) show ?thesis by simp
qed

lemma retrieve_body_ok_bad_record:
  assumes "fst (exchange (req lib (token (fst s))) s) = Inr line"
    and "parse_messages lib line = Some resp" and "mr_type resp = JStr ''ok''"
    and "mr_messages resp = JArr raw" and "\<exists>x\<in>set raw. \<exists>e. f x = Inl e"
  shows "fst (retrieve_body lib req f s) = []"
proof -
  from collect_some_fail [OF assms(5), of "[]"] obtain e where "collect f raw [] = Inl e" by auto
  with retrieve_body_ok [where req=req and lib=lib and s=s and f=f, OF assms(1-3)] assms(4) show ?thesis by simp
qed

lemma collect_strs:
  "(\<And>x. (\<forall>kv. x \<noteq> JObj kv) \<Longrightarrow> \<exists>e. f x = Inl e) \<Longrightarrow>
   (case collect f (map g xs) [] of Inl e \<Rightarrow> [] | Inr ms \<Rightarrow> ms) = []"
   if "\<And>y. \<forall>kv. g y \<noteq> JObj kv"
proof (cases xs)
  case Nil
  then show ?thesis by simp
next
  case (Cons y ys)
  assume f: "\<And>x. (\<forall>kv. x \<noteq> JObj kv) \<Longrightarrow> \<exists>e. f x = Inl e"
  from f [OF that [of y]] obtain e where "f (g y) = Inl e" by auto
  with Cons show ?thesis by simp
qed

lemma retrieve_body_ok_not_list:
  assumes "fst (exchange (req lib (token (fst s))) s) = Inr line"
    and "parse_messages lib line = Some resp" and "mr_type resp = JStr ''ok''"
    and "\<forall>raw. mr_messages resp \<noteq> JArr raw"
    and f: "\<And>x. (\<forall>kv. x \<noteq> JObj kv) \<Longrightarrow> \<exists>e. f x = Inl e"
  shows "fst (retrieve_body lib req f s) = []"
proof (cases "mr_messages resp")
  case (JObj kv)
  have "(case collect f (map (\<lambda>(k, v). JStr k) kv) [] of Inl e \<Rightarrow> [] | Inr ms \<Rightarrow> ms) = []"
    by (rule collect_strs [OF _ f]) auto
  with retrieve_body_ok [where req=req and lib=lib and s=s and f=f, OF assms(1-3)] JObj show ?thesis by simp
next
  case (JStr str)
  have "(case collect f (map (\<lambda>c. JStr [c]) str) [] of Inl e \<Rightarrow> [] | Inr ms \<Rightarrow> ms) = []"
    by (rule collect_strs [OF _ f]) auto
  with retrieve_body_ok [where req=req and lib=lib and s=s and f=f, OF assms(1-3)] JStr show ?thesis by simp
qed (use retrieve_body_ok [where req=req and lib=lib and s=s and f=f, OF assms(1-3)] assms(4) in simp_all)

lemma retrieve_new_connect_fails:
  "\<not> truthy (token (fst s)) \<Longrightarrow> \<not> fst (connect lib s) \<Longrightarrow>
   retrieve_new lib s = ([], snd (connect lib s))"
  by (cases "connect lib s") (simp add: retrieve_new_def)

lemma retrieve_new_body:
  "truthy (token (fst s)) \<or> fst (connect lib s) \<Longrightarrow>
   retrieve_new lib s =
     retrieve_body lib request_unread_messages new_record
       (if truthy (token (fst s)) then s else snd (connect lib s))"
  by (cases "connect lib s") (auto simp add: retrieve_new_def)

lemma retrieve_all_connect_fails:
  "\<not> truthy (token (fst s)) \<Longrightarrow> \<not> fst (connect lib s) \<Longrightarrow>
   retrieve_all lib s = ([], snd (connect lib s))"
  by (cases "connect lib s") (simp add: retrieve_all_def)

lemma retrieve_all_body:
  "truthy (token (fst s)) \<or> fst (connect lib s) \<Longrightarrow>
   retrieve_all lib s =
     retrieve_body lib request_all_messages all_record
       (if truthy (token (fst s)) then s else snd (connect lib s))"
  by (cases "connect lib s") (auto simp add: retrieve_all_def)

text \<open>The definitions a run on concrete input unfolds.\<close>

lemmas world_defs =
  socket_new_def socket_connect_def makefile_def stream_write_def stream_flush_def
  stream_readline_def handle_close_def time_str_def sleep_def CRLF_def

lemmas messenger_defs =
  DirectMessenger_init_def close_if_set_def close_def credentials_def connect_try_def
  connect_def exchange_def send_try_def send_body_def send_def new_record_def all_record_def
  retrieve_try_def retrieve_body_def retrieve_new_def retrieve_all_def
  parse_response_def parse_response_try_def parse_messages_def parse_messages_try_def
  create_join_def create_direct_message_def request_unread_messages_def
  request_all_messages_def

lemma test_dumps: "json_dumps test_lib (JObj ((k, v) # kvs)) = k"
  by (simp add: test_lib_def)

lemmas fixture_defs =
  quiet_world_def server_world_def test_messenger_def test_loads_simps test_dumps

text \<open>
  Claim C8.  \<open>s1\<close> is the state in which \<open>retrieve_new\<close> makes its request: the
  state it was called in when a token is held, the state after the implicit
  \<open>connect\<close> otherwise.  The result is empty when that connect fails, when the exchange
  raises (transport error), when the line does not decode, when the type is not
  \<^verbatim>\<open>ok\<close>, when \<^verbatim>\<open>messages\<close> is no list and when one of its records is no
  object.  In the one case left, a decoded \<^verbatim>\<open>ok\<close> batch of objects, the result has
  exactly one message for each raw record, in order, each the conversion of its record.
\<close>

theorem retrieve_new_empty_or_complete:
  assumes "s1 = (if truthy (token (fst s)) then s else snd (connect lib s))"
    and "rq = request_unread_messages lib (token (fst s1))"
  shows
  "(\<not> truthy (token (fst s)) \<and> \<not> fst (connect lib s) \<longrightarrow> fst (retrieve_new lib s) = [])
   \<and> (truthy (token (fst s)) \<or> fst (connect lib s) \<longrightarrow>
        (\<forall>e. fst (exchange rq s1) = Inl e \<longrightarrow> fst (retrieve_new lib s) = [])
      \<and> (\<forall>line. fst (exchange rq s1) = Inr line \<and> parse_messages lib line = None \<longrightarrow>
            fst (retrieve_new lib s) = [])
      \<and> (\<forall>line resp. fst (exchange rq s1) = Inr line \<and> parse_messages lib line = Some resp
            \<and> mr_type resp \<noteq> JStr ''ok'' \<longrightarrow>
            fst (retrieve_new lib s) = [])
      \<and> (\<forall>line resp. fst (exchange rq s1) = Inr line \<and> parse_messages lib line = Some resp
            \<and> mr_type resp = JStr ''ok'' \<and> (\<forall>raw. mr_messages resp \<noteq> JArr raw) \<longrightarrow>
            fst (retrieve_new lib s) = [])
      \<and> (\<forall>line resp raw. fst (exchange rq s1) = Inr line \<and> parse_messages lib line = Some resp
            \<and> mr_type resp = JStr ''ok'' \<and> mr_messages resp = JArr raw
            \<and> (\<exists>x\<in>set raw. \<forall>kv. x \<noteq> JObj kv) \<longrightarrow>
            fst (retrieve_new lib s) = [])
      \<and> (\<forall>line resp raw. fst (exchange rq s1) = Inr line \<and> parse_messages lib line = Some resp
            \<and> mr_type resp = JStr ''ok'' \<and> mr_messages resp = JArr raw
            \<and> (\<forall>x\<in>set raw. \<exists>kv. x = JObj kv) \<longrightarrow>
            map new_record raw = map Inr (fst (retrieve_new lib s))
            \<and> length (fst (retrieve_new lib s)) = length raw))"
proof (intro conjI impI allI)
  assume "\<not> truthy (token (fst s)) \<and> \<not> fst (connect lib s)"
  then show "fst (retrieve_new lib s) = []"
    by (simp add: retrieve_new_connect_fails)
next
  assume "truthy (token (fst s)) \<or> fst (connect lib s)"
  from retrieve_new_body [OF this] assms(1)
  have body: "retrieve_new lib s = retrieve_body lib request_unread_messages new_record s1"
    by simp
  note ex = assms(2)
  {
    fix e
    assume "fst (exchange rq s1) = Inl e"
    with ex body show "fst (retrieve_new lib s) = []"
      by (simp add: retrieve_body_transport_error)
  next
    fix line
    assume "fst (exchange rq s1) = Inr line \<and> parse_messages lib line = None"
    with ex body show "fst (retrieve_new lib s) = []"
      by (simp add: retrieve_body_undecodable)
  next
    fix line resp
    assume "fst (exchange rq s1) = Inr line \<and> parse_messages lib line = Some resp
            \<and> mr_type resp \<noteq> JStr ''ok''"
    with ex body show "fst (retrieve_new lib s) = []"
      by (simp add: retrieve_body_not_ok)
  next
    fix line resp
    assume a: "fst (exchange rq s1) = Inr line \<and> parse_messages lib line = Some resp
            \<and> mr_type resp = JStr ''ok'' \<and> (\<forall>raw. mr_messages resp \<noteq> JArr raw)"
    have "fst (retrieve_body lib request_unread_messages new_record s1) = []"
      by (rule retrieve_body_ok_not_list [where line = line and resp = resp])
         (use a ex in \<open>auto simp add: new_record_not_obj\<close>)
    with body show "fst (retrieve_new lib s) = []" by simp
  next
    fix line resp raw
    assume a: "fst (exchange rq s1) = Inr line \<and> parse_messages lib line = Some resp
            \<and> mr_type resp = JStr ''ok'' \<and> mr_messages resp = JArr raw
            \<and> (\<exists>x\<in>set raw. \<forall>kv. x \<noteq> JObj kv)"
    have "fst (retrieve_body lib request_unread_messages new_record s1) = []"
      by (rule retrieve_body_ok_bad_record [where line = line and resp = resp and raw = raw])
         (use a ex in \<open>auto intro: new_record_not_obj\<close>)
    with body show "fst (retrieve_new lib s) = []" by simp
  next
    fix line resp raw
    assume a: "fst (exchange rq s1) = Inr line \<and> parse_messages lib line = Some resp
            \<and> mr_type resp = JStr ''ok'' \<and> mr_messages resp = JArr raw
            \<and> (\<forall>x\<in>set raw. \<exists>kv. x = JObj kv)"
    have "map new_record raw
            = map Inr (fst (retrieve_body lib request_unread_messages new_record s1))"
      by (rule retrieve_body_ok_list [where line = line and resp = resp])
         (use a ex in \<open>auto simp add: new_record_obj\<close>)
    with body show m: "map new_record raw = map Inr (fst (retrieve_new lib s))" by simp
    from arg_cong [OF m, of length] show "length (fst (retrieve_new lib s)) = length raw"
      by simp
  }
qed

theorem retrieve_new_empty_or_complete_witness:
  "fst (retrieve_new test_lib (test_messenger, server_world [] [])) = []
   \<and> fst (retrieve_new test_lib (test_messenger, server_world [None] [join_ok_line, batch_new_line]))
      = [DirectMessage (JStr ''sender'') (JStr ''Test message'') (JStr ''1234567890'')]"
proof -
  let ?refused = "(test_messenger, server_world [] [])"
  let ?s = "(test_messenger, server_world [None] [join_ok_line, batch_new_line])"
  let ?s1 = "snd (connect test_lib ?s)"
  let ?rq = "request_unread_messages test_lib (token (fst ?s1))"
  have no_token: "\<not> truthy (token test_messenger)"
    by (simp add: fixture_defs messenger_defs)
  have refused: "\<not> fst (connect test_lib ?refused)"
    by (simp add: fixture_defs messenger_defs world_defs)
  have joined: "fst (connect test_lib ?s)"
    by (simp add: fixture_defs messenger_defs world_defs)
  have answered: "fst (exchange ?rq ?s1) = Inr batch_new_line"
    by (simp add: fixture_defs messenger_defs world_defs)
  have decoded:
    "parse_messages test_lib batch_new_line = Some (MessageResponse (JStr ''ok'') (JArr batch_new_records))"
    by (simp add: fixture_defs messenger_defs)
  have objects: "\<forall>x\<in>set batch_new_records. \<exists>kv. x = JObj kv"
    by (simp add: batch_new_records_def)
  have s1: "?s1 = (if truthy (token (fst ?s)) then ?s else snd (connect test_lib ?s))"
    using no_token by simp
  from retrieve_new_empty_or_complete [OF refl refl, of ?refused test_lib] no_token refused
  have 1: "fst (retrieve_new test_lib ?refused) = []"
    by simp
  from retrieve_new_empty_or_complete [OF s1 refl] joined answered decoded objects
  have "map new_record batch_new_records = map Inr (fst (retrieve_new test_lib ?s))"
    by simp
  then have 2: "fst (retrieve_new test_lib ?s)
      = [DirectMessage (JStr ''sender'') (JStr ''Test message'') (JStr ''1234567890'')]"
    by (cases "fst (retrieve_new test_lib ?s)") (auto simp add: new_record_def batch_new_records_def)
  from 1 2 show ?thesis by simp
qed

lemma retrieve_all_scenario:
  "fst (retrieve_all test_lib (test_messenger, server_world [None] [join_ok_line, batch_all_line]))
     = [DirectMessage (JStr ''sender'') (JStr ''Incoming'') (JStr ''1234567890''),
        DirectMessage (JStr ''recipient'') (JStr ''Outgoing'') (JStr ''1234567891'')]"
  by (simp add: fixture_defs messenger_defs world_defs batch_all_records_def)

text \<open>
  Claim C7.  \<open>retrieve_all\<close> turns a raw record into a message whose \<open>recipient\<close>
  attribute, the other party, is the record's \<^verbatim>\<open>from\<close> entry when the key is present
  and its \<^verbatim>\<open>recipient\<close> entry otherwise (None when that is absent too); a decoded
  \<^verbatim>\<open>ok\<close> batch of objects gives one such message for each record, in order.  On the
  batch of the repository's test, one record with \<^verbatim>\<open>from\<close> and one with
  \<^verbatim>\<open>recipient\<close>, the result is the two messages with the parties "sender" and
  "recipient".
\<close>

theorem retrieve_all_counterpart:
  assumes "s1 = (if truthy (token (fst s)) then s else snd (connect lib s))"
    and "rq = request_all_messages lib (token (fst s1))"
  shows
  "(\<forall>kv. all_record (JObj kv) =
      Inr (DirectMessage
             (case map_of kv ''from'' of
                Some v \<Rightarrow> v
              | None \<Rightarrow> (case map_of kv ''recipient'' of Some v \<Rightarrow> v | None \<Rightarrow> JNull))
             (case map_of kv ''message'' of Some v \<Rightarrow> v | None \<Rightarrow> JNull)
             (case map_of kv ''timestamp'' of Some v \<Rightarrow> v | None \<Rightarrow> JNull)))
   \<and> (\<forall>line resp raw.
        (truthy (token (fst s)) \<or> fst (connect lib s))
        \<and> fst (exchange rq s1) = Inr line \<and> parse_messages lib line = Some resp
        \<and> mr_type resp = JStr ''ok'' \<and> mr_messages resp = JArr raw
        \<and> (\<forall>x\<in>set raw. \<exists>kv. x = JObj kv) \<longrightarrow>
        map all_record raw = map Inr (fst (retrieve_all lib s))
        \<and> length (fst (retrieve_all lib s)) = length raw)
   \<and> fst (retrieve_all test_lib (test_messenger, server_world [None] [join_ok_line, batch_all_line]))
       = [DirectMessage (JStr ''sender'') (JStr ''Incoming'') (JStr ''1234567890''),
          DirectMessage (JStr ''recipient'') (JStr ''Outgoing'') (JStr ''1234567891'')]"
proof (intro conjI impI allI)
  fix kv
  show "all_record (JObj kv) =
      Inr (DirectMessage
             (case map_of kv ''from'' of
                Some v \<Rightarrow> v
              | None \<Rightarrow> (case map_of kv ''recipient'' of Some v \<Rightarrow> v | None \<Rightarrow> JNull))
             (case map_of kv ''message'' of Some v \<Rightarrow> v | None \<Rightarrow> JNull)
             (case map_of kv ''timestamp'' of Some v \<Rightarrow> v | None \<Rightarrow> JNull))"
    by (simp add: all_record_obj split: option.splits)
next
  fix line resp raw
  assume a: "(truthy (token (fst s)) \<or> fst (connect lib s))
        \<and> fst (exchange rq s1) = Inr line \<and> parse_messages lib line = Some resp
        \<and> mr_type resp = JStr ''ok'' \<and> mr_messages resp = JArr raw
        \<and> (\<forall>x\<in>set raw. \<exists>kv. x = JObj kv)"
  then have "truthy (token (fst s)) \<or> fst (connect lib s)" by simp
  from retrieve_all_body [OF this] assms(1)
  have body: "retrieve_all lib s = retrieve_body lib request_all_messages all_record s1"
    by simp
  have "map all_record raw = map Inr (fst (retrieve_body lib request_all_messages all_record s1))"
    by (rule retrieve_body_ok_list [where line = line and resp = resp])
       (use a assms(2) in \<open>auto simp add: all_record_obj\<close>)
  with body show m: "map all_record raw = map Inr (fst (retrieve_all lib s))" by simp
  from arg_cong [OF m, of length] show "length (fst (retrieve_all lib s)) = length raw"
    by simp
next
  show "fst (retrieve_all test_lib (test_messenger, server_world [None] [join_ok_line, batch_all_line]))
       = [DirectMessage (JStr ''sender'') (JStr ''Incoming'') (JStr ''1234567890''),
          DirectMessage (JStr ''recipient'') (JStr ''Outgoing'') (JStr ''1234567891'')]"
    by (rule retrieve_all_scenario)
qed

theorem retrieve_all_counterpart_witness:
  "map all_record batch_all_records
     = map Inr (fst (retrieve_all test_lib
                       (test_messenger, server_world [None] [join_ok_line, batch_all_line])))
   \<and> map recipient (fst (retrieve_all test_lib
                       (test_messenger, server_world [None] [join_ok_line, batch_all_line])))
     = [JStr ''sender'', JStr ''recipient'']"
proof -
  let ?s = "(test_messenger, server_world [None] [join_ok_line, batch_all_line])"
  let ?s1 = "snd (connect test_lib ?s)"
  let ?rq = "request_all_messages test_lib (token (fst ?s1))"
  have no_token: "\<not> truthy (token test_messenger)"
    by (simp add: fixture_defs messenger_defs)
  have joined: "fst (connect test_lib ?s)"
    by (simp add: fixture_defs messenger_defs world_defs)
  have answered: "fst (exchange ?rq ?s1) = Inr batch_all_line"
    by (simp add: fixture_defs messenger_defs world_defs)
  have decoded:
    "parse_messages test_lib batch_all_line = Some (MessageResponse (JStr ''ok'') (JArr batch_all_records))"
    by (simp add: fixture_defs messenger_defs)
  have objects: "\<forall>x\<in>set batch_all_records. \<exists>kv. x = JObj kv"
    by (simp add: batch_all_records_def)
  have s1: "?s1 = (if truthy (token (fst ?s)) then ?s else snd (connect test_lib ?s))"
    using no_token by simp
  note claim = retrieve_all_counterpart [OF s1 refl]
  from claim joined answered decoded objects
  have 1: "map all_record batch_all_records = map Inr (fst (retrieve_all test_lib ?s))"
    by simp
  from claim have 2: "map recipient (fst (retrieve_all test_lib ?s)) = [JStr ''sender'', JStr ''recipient'']"
    by simp
  from 1 2 show ?thesis by simp
qed

section \<open>What a call does to the world\<close>

lemma writes_append [simp]: "writes (xs @ ys) = writes xs @ writes ys"
  by (induction xs rule: writes.induct) simp_all

lemma socket_new_effect [simp]:
  "fst (socket_new w) = next_handle w"
  "calls (snd (socket_new w)) = calls w @ [SocketNew (next_handle w)]"
  "open_handles (snd (socket_new w)) = insert (next_handle w) (open_handles w)"
  "next_handle (snd (socket_new w)) = Suc (next_handle w)"
  by (simp_all add: socket_new_def)

lemma makefile_effect [simp]:
  "fst (makefile sock w) = next_handle w"
  "calls (snd (makefile sock w)) = calls w @ [MakeFile sock (next_handle w)]"
  "open_handles (snd (makefile sock w)) = insert (next_handle w) (open_handles w)"
  "next_handle (snd (makefile sock w)) = Suc (next_handle w)"
  by (simp_all add: makefile_def)

lemma socket_connect_effect [simp]:
  "calls (snd (socket_connect h host prt w)) = calls w @ [SocketConnect h host prt]"
  "open_handles (snd (socket_connect h host prt w)) = open_handles w"
  "next_handle (snd (socket_connect h host prt w)) = next_handle w"
  by (simp_all add: socket_connect_def split: list.splits)

lemma stream_write_effect [simp]:
  "calls (snd (stream_write h s w)) = calls w @ [StreamWrite h s]"
  "open_handles (snd (stream_write h s w)) = open_handles w"
  "next_handle (snd (stream_write h s w)) = next_handle w"
  by (simp_all add: stream_write_def split: list.splits)

lemma stream_flush_effect [simp]:
  "calls (snd (stream_flush h w)) = calls w @ [StreamFlush h]"
  "open_handles (snd (stream_flush h w)) = open_handles w"
  "next_handle (snd (stream_flush h w)) = next_handle w"
  by (simp_all add: stream_flush_def split: list.splits)

lemma stream_readline_effect [simp]:
  "calls (snd (stream_readline h w)) = calls w @ [StreamReadline h]"
  "open_handles (snd (stream_readline h w)) = open_handles w"
  "next_handle (snd (stream_readline h w)) = next_handle w"
  by (simp_all add: stream_readline_def split: list.splits)

lemma handle_close_effect [simp]:
  "calls (snd (handle_close h w)) = calls w @ [Close h]"
  "open_handles (snd (handle_close h w)) = open_handles w - {h}"
  "next_handle (snd (handle_close h w)) = next_handle w"
  by (auto simp add: handle_close_def split: list.splits)

lemma time_str_effect [simp]:
  "calls (snd (time_str w)) = calls w"
  "open_handles (snd (time_str w)) = open_handles w"
  "next_handle (snd (time_str w)) = next_handle w"
  by (simp_all add: time_str_def split: list.splits)



lemma close_if_set_effect [simp]:
  "calls (snd (close_if_set None w)) = calls w"
  "calls (snd (close_if_set (Some h) w)) = calls w @ [Close h]"
  "open_handles (snd (close_if_set None w)) = open_handles w"
  "open_handles (snd (close_if_set (Some h) w)) = open_handles w - {h}"
  "next_handle (snd (close_if_set ho w)) = next_handle w"
  by (simp_all add: close_if_set_def split: option.splits)

lemma close_messenger [simp]: "fst (close s) = fst s"
  by (simp add: close_def case_prod_beta split: option.splits)

lemma close_calls:
  "\<exists>evs. calls (snd (close (m, w))) = calls w @ evs
         \<and> filter is_connect_call evs = [] \<and> writes evs = []
         \<and> filter is_io_call evs = evs"
  by (cases "send_stream m"; cases "recv_stream m"; cases "socket m")
     (simp_all add: close_def case_prod_beta split: option.splits)

lemma close_open_handles: "open_handles (snd (close (m, w))) \<subseteq> open_handles w"
  by (cases "send_stream m"; cases "recv_stream m"; cases "socket m")
     (auto simp add: close_def case_prod_beta split: option.splits)

lemma connect_try_calls:
  "\<exists>evs. calls (snd (snd (connect_try lib (m, w)))) = calls w @ evs
         \<and> length (filter is_connect_call evs) = 1
         \<and> filter is_close_call evs = []
         \<and> set (writes evs) \<subseteq> (case credentials m of None \<Rightarrow> {}
                                  | Some (u, p) \<Rightarrow> {create_join lib u p @ CRLF})"
  by (simp add: connect_try_def case_prod_beta Let_def credentials_def
           split: option.splits sum.splits)

lemma connect_try_messenger:
  "socket (fst (snd (connect_try lib (m, w)))) = Some (next_handle w)"
  "username (fst (snd (connect_try lib (m, w)))) = username m"
  "password (fst (snd (connect_try lib (m, w)))) = password m"
  by (simp_all add: connect_try_def case_prod_beta Let_def split: option.splits sum.splits)

lemma connect_try_token:
  "fst (connect_try lib (m, w)) \<noteq> Inr True \<Longrightarrow>
   token (fst (snd (connect_try lib (m, w)))) = token m"
  by (auto simp add: connect_try_def case_prod_beta Let_def
           split: option.splits sum.splits if_splits)

lemma connect_try_returned:
  "fst (connect_try lib (m, w)) = Inr b \<Longrightarrow>
     send_stream (fst (snd (connect_try lib (m, w)))) = Some (Suc (next_handle w))
   \<and> recv_stream (fst (snd (connect_try lib (m, w)))) = Some (Suc (Suc (next_handle w)))
   \<and> open_handles (snd (snd (connect_try lib (m, w))))
       = {next_handle w, Suc (next_handle w), Suc (Suc (next_handle w))} \<union> open_handles w"
  by (auto simp add: connect_try_def case_prod_beta Let_def split: option.splits sum.splits if_splits)

lemma connect_returned:
  "fst (connect_try lib s) = Inr b \<Longrightarrow> connect lib s = (b, snd (connect_try lib s))"
  by (cases "connect_try lib s") (simp add: connect_def)

lemma connect_raised:
  "fst (connect_try lib s) = Inl e \<Longrightarrow> connect lib s = (False, close (snd (connect_try lib s)))"
  by (cases "connect_try lib s") (simp add: connect_def)

lemma connect_calls:
  "\<exists>evs. calls (snd (snd (connect lib (m, w)))) = calls w @ evs
         \<and> length (filter is_connect_call evs) = 1
         \<and> set (writes evs) \<subseteq> (case credentials m of None \<Rightarrow> {}
                                  | Some (u, p) \<Rightarrow> {create_join lib u p @ CRLF})"
proof -
  from connect_try_calls [of lib m w] obtain evs where evs:
    "calls (snd (snd (connect_try lib (m, w)))) = calls w @ evs"
    "length (filter is_connect_call evs) = 1"
    "set (writes evs) \<subseteq> (case credentials m of None \<Rightarrow> {}
                            | Some (u, p) \<Rightarrow> {create_join lib u p @ CRLF})"
    by blast
  show ?thesis
  proof (cases "fst (connect_try lib (m, w))")
    case (Inr b)
    from connect_returned [OF this] evs show ?thesis by auto
  next
    case (Inl e)
    obtain m' w' where mw: "snd (connect_try lib (m, w)) = (m', w')" by (cases "snd (connect_try lib (m, w))")
    from close_calls [of m' w'] obtain cs where cs:
      "calls (snd (close (m', w'))) = calls w' @ cs" "filter is_connect_call cs = []" "writes cs = []"
      by blast
    from connect_raised [OF Inl] mw
    have "calls (snd (snd (connect lib (m, w)))) = calls (snd (close (m', w')))" by simp
    with cs evs mw have "calls (snd (snd (connect lib (m, w)))) = calls w @ (evs @ cs)" by simp
    moreover from evs cs have "length (filter is_connect_call (evs @ cs)) = 1" by simp
    moreover from evs cs have "set (writes (evs @ cs)) \<subseteq> (case credentials m of None \<Rightarrow> {}
                            | Some (u, p) \<Rightarrow> {create_join lib u p @ CRLF})" by simp
    ultimately show ?thesis by blast
  qed
qed

section \<open>Connecting, sending, closing\<close>

lemma exchange_calls:
  "\<exists>evs. calls (snd (exchange rq (m, w))) = calls w @ evs \<and> filter is_connect_call evs = []"
  by (simp add: exchange_def case_prod_beta split: option.splits)

lemma exchange_closed_stream:
  "send_stream m = Some ss \<Longrightarrow> ss \<notin> open_handles w \<Longrightarrow> fst (exchange rq (m, w)) = Inl ValueError"
  by (simp add: exchange_def stream_write_def)

lemma send_body_messenger [simp]: "fst (snd (send_body lib msg rcpt s)) = fst s"
  by (simp add: send_body_def case_prod_beta split: sum.splits)

lemma retrieve_body_messenger [simp]: "fst (snd (retrieve_body lib req f s)) = fst s"
  by (simp add: retrieve_body_def case_prod_beta split: sum.splits)

lemma send_body_calls:
  "\<exists>evs. calls (snd (snd (send_body lib msg rcpt (m, w)))) = calls w @ evs
         \<and> filter is_connect_call evs = []"
proof -
  let ?w1 = "snd (time_str w)"
  let ?rq = "create_direct_message lib (token m) msg rcpt (fst (time_str w))"
  from exchange_calls [of ?rq m ?w1] obtain evs where
    "calls (snd (exchange ?rq (m, ?w1))) = calls w @ evs" "filter is_connect_call evs = []"
    by auto
  moreover have "snd (snd (send_body lib msg rcpt (m, w))) = snd (exchange ?rq (m, ?w1))"
    by (simp add: send_body_def send_try_def case_prod_beta split: sum.splits)
  ultimately show ?thesis by auto
qed

lemma send_body_closed_stream:
  "send_stream m = Some ss \<Longrightarrow> ss \<notin> open_handles w \<Longrightarrow>
   fst (send_body lib msg rcpt (m, w)) = Some False"
  by (simp add: send_body_def send_try_def case_prod_beta exchange_closed_stream)

lemma retrieve_body_closed_stream:
  "send_stream m = Some ss \<Longrightarrow> ss \<notin> open_handles w \<Longrightarrow>
   fst (retrieve_body lib req f (m, w)) = []"
  by (simp add: retrieve_body_def retrieve_try_def case_prod_beta exchange_closed_stream)

lemma send_with_token: "truthy (token (fst s)) \<Longrightarrow> send lib msg rcpt s = send_body lib msg rcpt s"
  by (simp add: send_def)

lemma send_connect_fails:
  "\<not> truthy (token (fst s)) \<Longrightarrow> \<not> fst (connect lib s) \<Longrightarrow>
   send lib msg rcpt s = (Some False, snd (connect lib s))"
  by (cases "connect lib s") (simp add: send_def)

text \<open>
  A refused connection on a messenger that was never connected: the handler's
  \<open>close\<close> finds no streams and closes the new socket.
\<close>

lemma connect_refused_releases_socket:
  assumes "fst (socket_connect (next_handle w) (dsuserver m) (port m) (snd (socket_new w))) = Some e"
    and "send_stream m = None" and "recv_stream m = None"
  shows "\<not> fst (connect lib (m, w))
         \<and> next_handle w \<notin> open_handles (snd (snd (connect lib (m, w))))"
proof -
  from assms(1) have t: "connect_try lib (m, w) =
      (Inl e, m\<lparr>socket := Some (next_handle w)\<rparr>,
       snd (socket_connect (next_handle w) (dsuserver m) (port m) (snd (socket_new w))))"
    by (simp add: connect_try_def case_prod_beta Let_def)
  then have "connect lib (m, w) =
      (False, close (m\<lparr>socket := Some (next_handle w)\<rparr>,
       snd (socket_connect (next_handle w) (dsuserver m) (port m) (snd (socket_new w)))))"
    by (simp add: connect_def)
  with assms(2,3) show ?thesis
    by (simp add: close_def close_if_set_def case_prod_beta split: option.splits)
qed

text \<open>
  On claim C4.  \<open>connect\<close> returns False on every failure and never raises, and the
  three handlers release the transport through \<open>close\<close>.  The failures that are no
  exception, the \<^verbatim>\<open>return False\<close> of line 64 reached with missing credentials, with an
  undecodable response and with a response of type error, return False with the new
  socket and both file objects still open: no close is called on that path.
\<close>

theorem connect_plain_failure_keeps_transport_open:
  assumes "fst (connect_try lib (m, w)) = Inr False"
  shows "\<not> fst (connect lib (m, w))
     \<and> socket (fst (snd (connect lib (m, w)))) = Some (next_handle w)
     \<and> send_stream (fst (snd (connect lib (m, w)))) = Some (Suc (next_handle w))
     \<and> recv_stream (fst (snd (connect lib (m, w)))) = Some (Suc (Suc (next_handle w)))
     \<and> {next_handle w, Suc (next_handle w), Suc (Suc (next_handle w))}
           \<subseteq> open_handles (snd (snd (connect lib (m, w))))
     \<and> (\<exists>evs. calls (snd (snd (connect lib (m, w)))) = calls w @ evs
               \<and> filter is_close_call evs = [])"
proof -
  from connect_returned [OF assms]
  have c: "connect lib (m, w) = (False, snd (connect_try lib (m, w)))" .
  from connect_try_calls [of lib m w] obtain evs where
    "calls (snd (snd (connect_try lib (m, w)))) = calls w @ evs" "filter is_close_call evs = []"
    by blast
  with c connect_try_returned [OF assms] connect_try_messenger(1) [of lib m w]
  show ?thesis by auto
qed

theorem connect_plain_failure_keeps_transport_open_witness:
  "\<not> fst (connect test_lib (test_messenger, server_world [None] [error_line]))
   \<and> {0, 1, 2} \<subseteq> open_handles (snd (snd (connect test_lib
                      (test_messenger, server_world [None] [error_line]))))
   \<and> \<not> fst (connect test_lib (test_messenger, server_world [None] [invalid_json_line]))
   \<and> {0, 1, 2} \<subseteq> open_handles (snd (snd (connect test_lib
                      (test_messenger, server_world [None] [invalid_json_line]))))
   \<and> \<not> fst (connect test_lib (DirectMessenger_init None None None, server_world [None] []))
   \<and> {0, 1, 2} \<subseteq> open_handles (snd (snd (connect test_lib
                      (DirectMessenger_init None None None, server_world [None] []))))"
proof -
  have error_type:
    "fst (connect_try test_lib (test_messenger, server_world [None] [error_line])) = Inr False"
    by (simp add: fixture_defs messenger_defs world_defs)
  have malformed:
    "fst (connect_try test_lib (test_messenger, server_world [None] [invalid_json_line])) = Inr False"
    by (simp add: fixture_defs messenger_defs world_defs)
  have no_credentials:
    "fst (connect_try test_lib (DirectMessenger_init None None None, server_world [None] [])) = Inr False"
    by (simp add: fixture_defs messenger_defs world_defs)
  have fresh: "next_handle (server_world [None] lines) = 0" for lines
    by (simp add: fixture_defs)
  from connect_plain_failure_keeps_transport_open [OF error_type]
       connect_plain_failure_keeps_transport_open [OF malformed]
       connect_plain_failure_keeps_transport_open [OF no_credentials]
  show ?thesis
    by (simp add: fresh numeral_2_eq_2)
qed

text \<open>
  Claim C5.  \<open>send\<close> called with no token (None, or any value that is false in a
  condition) runs \<open>connect\<close> once; if that returns False, \<open>send\<close> returns False in
  the state \<open>connect\<close> left.  On the way exactly one connection was attempted, and
  the only line that may have been written is the join request of \<open>connect\<close>
  itself: the direct-message request is never written.
\<close>

theorem send_without_token_fails_closed:
  assumes "\<not> truthy (token m)" and "\<not> fst (connect lib (m, w))"
  shows "send lib msg rcpt (m, w) = (Some False, snd (connect lib (m, w)))
     \<and> (\<exists>evs. calls (snd (snd (send lib msg rcpt (m, w)))) = calls w @ evs
             \<and> length (filter is_connect_call evs) = 1
             \<and> set (writes evs) \<subseteq> (case credentials m of None \<Rightarrow> {}
                                      | Some (u, p) \<Rightarrow> {create_join lib u p @ CRLF})
             \<and> ((\<forall>u p tok now. create_join lib u p \<noteq> create_direct_message lib tok msg rcpt now)
                  \<longrightarrow> (\<forall>tok now. create_direct_message lib tok msg rcpt now @ CRLF
                                    \<notin> set (writes evs))))"
proof -
  from assms have s: "send lib msg rcpt (m, w) = (Some False, snd (connect lib (m, w)))"
    by (simp add: send_connect_fails)
  from connect_calls [of lib m w] obtain evs where evs:
    "calls (snd (snd (connect lib (m, w)))) = calls w @ evs"
    "length (filter is_connect_call evs) = 1"
    "set (writes evs) \<subseteq> (case credentials m of None \<Rightarrow> {}
                            | Some (u, p) \<Rightarrow> {create_join lib u p @ CRLF})"
    by blast
  have "(\<forall>u p tok now. create_join lib u p \<noteq> create_direct_message lib tok msg rcpt now)
          \<longrightarrow> (\<forall>tok now. create_direct_message lib tok msg rcpt now @ CRLF \<notin> set (writes evs))"
  proof (intro impI allI notI)
    fix tok now
    assume distinct: "\<forall>u p tok now. create_join lib u p \<noteq> create_direct_message lib tok msg rcpt now"
      and "create_direct_message lib tok msg rcpt now @ CRLF \<in> set (writes evs)"
    with evs(3) obtain u p where "create_direct_message lib tok msg rcpt now @ CRLF
        = create_join lib u p @ CRLF"
      by (cases "credentials m") auto
    then have "create_direct_message lib tok msg rcpt now = create_join lib u p" by simp
    with distinct show False by metis
  qed
  with s evs show ?thesis by auto
qed

theorem send_without_token_fails_closed_witness:
  "fst (send test_lib ''Test message'' ''recipient'' (test_messenger, server_world [None] [error_line]))
     = Some False
   \<and> calls (snd (snd (send test_lib ''Test message'' ''recipient''
                        (test_messenger, server_world [None] [error_line]))))
     = [SocketNew 0, SocketConnect 0 ''127.0.0.1'' 3001, MakeFile 0 1, MakeFile 0 2,
        StreamWrite 1 (create_join test_lib ''testuser'' ''testpass'' @ CRLF),
        StreamFlush 1, StreamReadline 2]
   \<and> fst (send test_lib ''Test message'' ''recipient'' (test_messenger, server_world [] []))
     = Some False
   \<and> writes (calls (snd (snd (send test_lib ''Test message'' ''recipient''
                        (test_messenger, server_world [] []))))) = []"
proof -
  let ?rejected = "(test_messenger, server_world [None] [error_line])"
  let ?refused = "(test_messenger, server_world [] [])"
  have no_token: "\<not> truthy (token test_messenger)"
    by (simp add: fixture_defs messenger_defs)
  have rejected: "\<not> fst (connect test_lib ?rejected)"
    by (simp add: fixture_defs messenger_defs world_defs)
  have refused: "\<not> fst (connect test_lib ?refused)"
    by (simp add: fixture_defs messenger_defs world_defs)
  have rejected_calls: "calls (snd (snd (connect test_lib ?rejected)))
     = [SocketNew 0, SocketConnect 0 ''127.0.0.1'' 3001, MakeFile 0 1, MakeFile 0 2,
        StreamWrite 1 (create_join test_lib ''testuser'' ''testpass'' @ CRLF),
        StreamFlush 1, StreamReadline 2]"
    by (simp add: fixture_defs messenger_defs world_defs)
  have refused_calls: "writes (calls (snd (snd (connect test_lib ?refused)))) = []"
    by (simp add: fixture_defs messenger_defs world_defs)
  from send_without_token_fails_closed [OF no_token rejected, of "''Test message''" "''recipient''"]
  have 1: "send test_lib ''Test message'' ''recipient'' ?rejected
             = (Some False, snd (connect test_lib ?rejected))"
    by blast
  from send_without_token_fails_closed [OF no_token refused, of "''Test message''" "''recipient''"]
  have 2: "send test_lib ''Test message'' ''recipient'' ?refused
             = (Some False, snd (connect test_lib ?refused))"
    by blast
  from 1 2 rejected_calls refused_calls show ?thesis by simp
qed

lemma retrieve_body_calls:
  "\<exists>evs. calls (snd (snd (retrieve_body lib req f (m, w)))) = calls w @ evs
         \<and> filter is_connect_call evs = []"
proof -
  let ?rq = "req lib (token m)"
  have "snd (snd (retrieve_body lib req f (m, w))) = snd (exchange ?rq (m, w))"
    by (simp add: retrieve_body_def retrieve_try_def case_prod_beta
             split: sum.splits option.splits)
  with exchange_calls [of ?rq m w] show ?thesis by simp
qed

lemma retrieve_new_with_token:
  "truthy (token (fst s)) \<Longrightarrow>
   retrieve_new lib s = retrieve_body lib request_unread_messages new_record s"
  by (simp add: retrieve_new_def)

lemma retrieve_all_with_token:
  "truthy (token (fst s)) \<Longrightarrow>
   retrieve_all lib s = retrieve_body lib request_all_messages all_record s"
  by (simp add: retrieve_all_def)

text \<open>
  On claim C9.  \<open>close\<close> assigns no attribute at all.  After a join that stored the
  token "T1", \<open>close\<close> leaves "T1" in place, and the next \<open>send\<close> does not
  reconnect: the one connection attempt in the log is that of the join.
\<close>

theorem close_clears_token_counterexample:
  "token (fst (close (snd (connect test_lib (test_messenger, server_world [None] [join_ok_line])))))
     = JStr ''T1''
   \<and> filter is_connect_call
       (calls (snd (snd (send test_lib ''hi'' ''bob''
          (close (snd (connect test_lib (test_messenger, server_world [None] [join_ok_line]))))))))
     = [SocketConnect 0 ''127.0.0.1'' 3001]
   \<and> fst (send test_lib ''hi'' ''bob''
          (close (snd (connect test_lib (test_messenger, server_world [None] [join_ok_line])))))
     = Some False"
  by (simp add: fixture_defs messenger_defs world_defs)

text \<open>
  Claim C9 as amended.  \<open>close\<close> does not clear the token: it leaves the whole
  messenger, the token with it, as it was (a messenger that was never connected holds
  none).  So a messenger that held a token, one that is true in a condition, still holds
  it after \<open>close\<close>, and a following \<open>send\<close>, \<open>retrieve_new\<close> or
  \<open>retrieve_all\<close> finds it and does not reconnect: the call attempts no connection
  and leaves the token in place.  When the send stream the messenger holds has been
  closed, the call fails instead: \<open>send\<close> returns False and the retrieves return the
  empty list.
\<close>

theorem close_keeps_token:
  "fst (close s) = fst s
   \<and> token (fst (close s)) = token (fst s)
   \<and> token (DirectMessenger_init srv usr pwd) = JNull
   \<and> (truthy (token (fst s)) \<longrightarrow>
        (\<exists>evs. calls (snd (snd (send lib msg rcpt (close s)))) = calls (snd (close s)) @ evs
               \<and> filter is_connect_call evs = [])
        \<and> (\<exists>evs. calls (snd (snd (retrieve_new lib (close s)))) = calls (snd (close s)) @ evs
               \<and> filter is_connect_call evs = [])
        \<and> (\<exists>evs. calls (snd (snd (retrieve_all lib (close s)))) = calls (snd (close s)) @ evs
               \<and> filter is_connect_call evs = [])
        \<and> token (fst (snd (send lib msg rcpt (close s)))) = token (fst s)
        \<and> token (fst (snd (retrieve_new lib (close s)))) = token (fst s)
        \<and> token (fst (snd (retrieve_all lib (close s)))) = token (fst s))
   \<and> (\<forall>ss. truthy (token (fst s)) \<and> send_stream (fst s) = Some ss
           \<and> ss \<notin> open_handles (snd (close s)) \<longrightarrow>
        fst (send lib msg rcpt (close s)) = Some False
        \<and> fst (retrieve_new lib (close s)) = []
        \<and> fst (retrieve_all lib (close s)) = [])"
proof (intro conjI impI allI)
  show "fst (close s) = fst s" by simp
  show "token (fst (close s)) = token (fst s)" by simp
  show "token (DirectMessenger_init srv usr pwd) = JNull"
    by (simp add: DirectMessenger_init_def)
next
  assume t: "truthy (token (fst s))"
  obtain m w where mw: "close s = (m, w)" by (cases "close s")
  from t have sb: "send lib msg rcpt (close s) = send_body lib msg rcpt (close s)"
    and rn: "retrieve_new lib (close s)
               = retrieve_body lib request_unread_messages new_record (close s)"
    and ra: "retrieve_all lib (close s)
               = retrieve_body lib request_all_messages all_record (close s)"
    by (simp_all add: send_with_token retrieve_new_with_token retrieve_all_with_token)
  from send_body_calls [of lib msg rcpt m w] sb mw
  show "\<exists>evs. calls (snd (snd (send lib msg rcpt (close s)))) = calls (snd (close s)) @ evs
               \<and> filter is_connect_call evs = []"
    by simp
  from retrieve_body_calls [of lib request_unread_messages new_record m w] rn mw
  show "\<exists>evs. calls (snd (snd (retrieve_new lib (close s)))) = calls (snd (close s)) @ evs
               \<and> filter is_connect_call evs = []"
    by simp
  from retrieve_body_calls [of lib request_all_messages all_record m w] ra mw
  show "\<exists>evs. calls (snd (snd (retrieve_all lib (close s)))) = calls (snd (close s)) @ evs
               \<and> filter is_connect_call evs = []"
    by simp
  from sb show "token (fst (snd (send lib msg rcpt (close s)))) = token (fst s)"
    by simp
  from rn show "token (fst (snd (retrieve_new lib (close s)))) = token (fst s)"
    by simp
  from ra show "token (fst (snd (retrieve_all lib (close s)))) = token (fst s)"
    by simp
next
  fix ss
  assume a: "truthy (token (fst s)) \<and> send_stream (fst s) = Some ss
           \<and> ss \<notin> open_handles (snd (close s))"
  obtain m w where mw: "close s = (m, w)" by (cases "close s")
  then have m: "m = fst s" using close_messenger [of s] by simp
  from a mw m have closed: "send_stream m = Some ss" "ss \<notin> open_handles w" "truthy (token m)"
    by simp_all
  from closed mw show "fst (send lib msg rcpt (close s)) = Some False"
    by (simp add: send_with_token send_body_closed_stream)
  from closed mw show "fst (retrieve_new lib (close s)) = []"
    by (simp add: retrieve_new_def retrieve_body_closed_stream)
  from closed mw show "fst (retrieve_all lib (close s)) = []"
    by (simp add: retrieve_all_def retrieve_body_closed_stream)
qed

theorem close_keeps_token_witness:
  "truthy (token (fst (snd (connect test_lib (test_messenger, server_world [None] [join_ok_line])))))
   \<and> token (fst (close (snd (connect test_lib (test_messenger, server_world [None] [join_ok_line])))))
      = JStr ''T1''
   \<and> fst (send test_lib ''hi'' ''bob''
        (close (snd (connect test_lib (test_messenger, server_world [None] [join_ok_line])))))
      = Some False
   \<and> fst (retrieve_new test_lib
        (close (snd (connect test_lib (test_messenger, server_world [None] [join_ok_line])))))
      = []
   \<and> fst (retrieve_all test_lib
        (close (snd (connect test_lib (test_messenger, server_world [None] [join_ok_line])))))
      = []
   \<and> filter is_connect_call (calls (snd (snd (retrieve_new test_lib
        (close (snd (connect test_lib (test_messenger, server_world [None] [join_ok_line]))))))))
      = [SocketConnect 0 ''127.0.0.1'' 3001]
   \<and> filter is_connect_call (calls (snd (snd (retrieve_all test_lib
        (close (snd (connect test_lib (test_messenger, server_world [None] [join_ok_line]))))))))
      = [SocketConnect 0 ''127.0.0.1'' 3001]"
proof -
  let ?s = "snd (connect test_lib (test_messenger, server_world [None] [join_ok_line]))"
  have held: "token (fst ?s) = JStr ''T1''"
    by (simp add: fixture_defs messenger_defs world_defs)
  have stream: "send_stream (fst ?s) = Some 1"
    by (simp add: fixture_defs messenger_defs world_defs)
  have closed: "1 \<notin> open_handles (snd (close ?s))"
    by (simp add: fixture_defs messenger_defs world_defs)
  have before: "filter is_connect_call (calls (snd (close ?s))) = [SocketConnect 0 ''127.0.0.1'' 3001]"
    by (simp add: fixture_defs messenger_defs world_defs)
  note claim = close_keeps_token [of ?s None None None test_lib "''hi''" "''bob''"]
  from claim held obtain evs_new evs_all where
    "calls (snd (snd (retrieve_new test_lib (close ?s)))) = calls (snd (close ?s)) @ evs_new"
    "filter is_connect_call evs_new = []"
    "calls (snd (snd (retrieve_all test_lib (close ?s)))) = calls (snd (close ?s)) @ evs_all"
    "filter is_connect_call evs_all = []"
    by auto
  with before have logs:
    "filter is_connect_call (calls (snd (snd (retrieve_new test_lib (close ?s)))))
       = [SocketConnect 0 ''127.0.0.1'' 3001]"
    "filter is_connect_call (calls (snd (snd (retrieve_all test_lib (close ?s)))))
       = [SocketConnect 0 ''127.0.0.1'' 3001]"
    by simp_all
  from claim held stream closed have results:
    "token (fst (close ?s)) = JStr ''T1''"
    "fst (send test_lib ''hi'' ''bob'' (close ?s)) = Some False"
    "fst (retrieve_new test_lib (close ?s)) = []"
    "fst (retrieve_all test_lib (close ?s)) = []"
    by simp_all
  from held results logs show ?thesis by simp
qed

section \<open>The coordinator\<close>

lemma app_connect_effect [simp]:
  "db (fst (snd (app_connect lib (a, w)))) = db a"
  "outgoing_queue (fst (snd (app_connect lib (a, w)))) = outgoing_queue a"
  "incoming_queue (fst (snd (app_connect lib (a, w)))) = incoming_queue a"
  "user_id (fst (snd (app_connect lib (a, w)))) = user_id a"
  "max_retries (fst (snd (app_connect lib (a, w)))) = max_retries a"
  "backoff_time (fst (snd (app_connect lib (a, w)))) = backoff_time a"
  "connection_state (fst (snd (app_connect lib (a, w))))
     = (if fst (app_connect lib (a, w)) then CONNECTED else DISCONNECTED)"
  "retry_count (fst (snd (app_connect lib (a, w))))
     = (if fst (app_connect lib (a, w)) then 0 else retry_count a)"
  by (simp_all add: app_connect_def update_connection_state_def case_prod_beta split: bool.splits)

lemma flush_effect [simp]:
  "db (flush_pending_messages a) = db a"
  "connection_state (flush_pending_messages a) = connection_state a"
  "retry_count (flush_pending_messages a) = retry_count a"
  "user_id (flush_pending_messages a) = user_id a"
  "outgoing_queue (flush_pending_messages a)
     = outgoing_queue a @ map retry_message (get_pending_messages (user_id a) (db a))"
  by (simp_all add: flush_pending_messages_def)

lemma try_reconnect_db [simp]: "db (fst (try_reconnect lib (a, w))) = db a"
  by (simp add: try_reconnect_def update_connection_state_def case_prod_beta Let_def
           split: bool.splits)

lemma try_reconnect_exhausted:
  "max_retries a \<le> int (retry_count a) \<Longrightarrow>
   try_reconnect lib (a, w) = (a\<lparr>connection_state := OFFLINE\<rparr>, w)"
  by (simp add: try_reconnect_def update_connection_state_def)

lemma try_reconnect_attempt:
  "int (retry_count a) < max_retries a \<Longrightarrow>
   try_reconnect lib (a, w) =
     (let s = app_connect lib (a\<lparr>connection_state := RECONNECTING, retry_count := Suc (retry_count a)\<rparr>,
                               sleep (backoff a) w)
      in if fst s then (flush_pending_messages (fst (snd s)), snd (snd s)) else snd s)"
  by (simp add: try_reconnect_def update_connection_state_def backoff_def Let_def case_prod_beta
           split: bool.splits)

lemma connect_calls_io:
  "\<exists>evs. calls (snd (snd (connect lib (m, w)))) = calls w @ evs"
  using connect_calls [of lib m w] by blast

lemma app_connect_calls:
  "\<exists>evs. calls (snd (snd (app_connect lib (a, w)))) = calls w @ evs"
proof -
  let ?m = "DirectMessenger_init (Some (server a)) (app_username a) (app_password a)"
  have "snd (snd (app_connect lib (a, w))) = snd (snd (connect lib (?m, w)))"
    by (simp add: app_connect_def case_prod_beta split: bool.splits)
  with connect_calls_io [of lib ?m w] show ?thesis by simp
qed

lemma try_reconnect_sleeps_first:
  assumes "int (retry_count a) < max_retries a"
  shows "\<exists>evs. calls (snd (try_reconnect lib (a, w))) = calls w @ Sleep (backoff a) # evs"
proof -
  let ?a = "a\<lparr>connection_state := RECONNECTING, retry_count := Suc (retry_count a)\<rparr>"
  let ?s = "app_connect lib (?a, sleep (backoff a) w)"
  from app_connect_calls [of lib ?a "sleep (backoff a) w"] obtain evs where
    "calls (snd (snd ?s)) = calls (sleep (backoff a) w) @ evs" by blast
  then have "calls (snd (snd ?s)) = calls w @ Sleep (backoff a) # evs"
    by (simp add: sleep_def)
  moreover have "snd (try_reconnect lib (a, w)) = snd (snd ?s)"
    by (simp add: try_reconnect_attempt [OF assms] Let_def)
  ultimately show ?thesis by auto
qed

lemma backoff_mono:
  assumes "0 \<le> backoff_time a"
  shows "backoff (a\<lparr>retry_count := n\<rparr>) \<le> backoff (a\<lparr>retry_count := Suc n\<rparr>)"
proof -
  have "backoff_time a * 2 ^ n \<le> backoff_time a * 2 ^ Suc n"
    using assms by (simp add: mult_left_mono)
  then show ?thesis by (simp add: backoff_def min_def)
qed

lemma backoff_strict:
  assumes "0 < backoff_time a" and "backoff (a\<lparr>retry_count := n\<rparr>) < 60"
  shows "backoff (a\<lparr>retry_count := n\<rparr>) < backoff (a\<lparr>retry_count := Suc n\<rparr>)"
proof -
  from assms(2) have below: "backoff_time a * 2 ^ n < 60"
    by (simp add: backoff_def min_def split: if_splits)
  have pos: "0 < backoff_time a * 2 ^ n" using assms(1) by simp
  then have "backoff_time a * 2 ^ n < backoff_time a * 2 ^ Suc n" by simp
  with below show ?thesis by (simp add: backoff_def min_def)
qed

lemma network_worker_not_connected:
  "connection_state a \<noteq> CONNECTED \<Longrightarrow>
     snd (network_worker lib (a, w)) = w
   \<and> connection_state (fst (network_worker lib (a, w))) = connection_state a
   \<and> retry_count (fst (network_worker lib (a, w))) = retry_count a"
  by (simp add: network_worker_def Let_def split: list.splits sum.splits)

text \<open>
  Claim C6.  The delay \<open>_try_reconnect\<close> sleeps before an attempt is
  \<open>min (backoff_time * 2 ^ retry_count) 60\<close>, with \<open>backoff_time\<close> set to 1 at
  start and never assigned again; as a function of the retry count it never decreases,
  and it grows strictly as long as it is below the cap of 60.  An attempt counts the
  retry.  Entered with \<open>retry_count \<ge> max_retries\<close>, \<open>_try_reconnect\<close> sets the state
  to Offline and does nothing else: no sleep, no connection attempt.  In state Offline
  the send worker makes no call to the network and stays Offline.  A successful
  \<open>_connect\<close> sets the state to Connected and the retry count to 0.
\<close>

theorem backoff_and_retry_limit:
  "backoff a = min (backoff_time a * 2 ^ retry_count a) 60
   \<and> backoff_time (MessengerApp_init cfg_max_retries cfg_server d) = 1
   \<and> (int (retry_count a) < max_retries a \<longrightarrow>
        (\<exists>evs. calls (snd (try_reconnect lib (a, w)))
                 = calls w @ Sleep (min (backoff_time a * 2 ^ retry_count a) 60) # evs)
        \<and> backoff_time (fst (try_reconnect lib (a, w))) = backoff_time a
        \<and> (connection_state (fst (try_reconnect lib (a, w))) \<noteq> CONNECTED \<longrightarrow>
             retry_count (fst (try_reconnect lib (a, w))) = Suc (retry_count a)))
   \<and> (0 \<le> backoff_time a \<longrightarrow>
        backoff (a\<lparr>retry_count := n\<rparr>) \<le> backoff (a\<lparr>retry_count := Suc n\<rparr>))
   \<and> (0 < backoff_time a \<and> backoff (a\<lparr>retry_count := n\<rparr>) < 60 \<longrightarrow>
        backoff (a\<lparr>retry_count := n\<rparr>) < backoff (a\<lparr>retry_count := Suc n\<rparr>))
   \<and> (max_retries a \<le> int (retry_count a) \<longrightarrow>
        try_reconnect lib (a, w) = (a\<lparr>connection_state := OFFLINE\<rparr>, w))
   \<and> (connection_state a = OFFLINE \<longrightarrow>
        snd (network_worker lib (a, w)) = w
        \<and> connection_state (fst (network_worker lib (a, w))) = OFFLINE)
   \<and> (fst (app_connect lib (a, w)) \<longrightarrow>
        connection_state (fst (snd (app_connect lib (a, w)))) = CONNECTED
        \<and> retry_count (fst (snd (app_connect lib (a, w)))) = 0)"
proof (intro conjI impI)
  show "backoff a = min (backoff_time a * 2 ^ retry_count a) 60"
    by (simp add: backoff_def)
  show "backoff_time (MessengerApp_init cfg_max_retries cfg_server d) = 1"
    by (simp add: MessengerApp_init_def)
next
  assume lt: "int (retry_count a) < max_retries a"
  from try_reconnect_sleeps_first [OF lt, of lib w]
  show "\<exists>evs. calls (snd (try_reconnect lib (a, w)))
                 = calls w @ Sleep (min (backoff_time a * 2 ^ retry_count a) 60) # evs"
    by (simp add: backoff_def)
  show "backoff_time (fst (try_reconnect lib (a, w))) = backoff_time a"
    by (simp add: try_reconnect_attempt [OF lt] Let_def flush_pending_messages_def)
  assume "connection_state (fst (try_reconnect lib (a, w))) \<noteq> CONNECTED"
  then show "retry_count (fst (try_reconnect lib (a, w))) = Suc (retry_count a)"
    by (simp add: try_reconnect_attempt [OF lt] Let_def split: if_splits)
next
  assume "0 \<le> backoff_time a"
  then show "backoff (a\<lparr>retry_count := n\<rparr>) \<le> backoff (a\<lparr>retry_count := Suc n\<rparr>)"
    by (rule backoff_mono)
next
  assume "0 < backoff_time a \<and> backoff (a\<lparr>retry_count := n\<rparr>) < 60"
  then show "backoff (a\<lparr>retry_count := n\<rparr>) < backoff (a\<lparr>retry_count := Suc n\<rparr>)"
    by (simp add: backoff_strict)
next
  assume "max_retries a \<le> int (retry_count a)"
  then show "try_reconnect lib (a, w) = (a\<lparr>connection_state := OFFLINE\<rparr>, w)"
    by (rule try_reconnect_exhausted)
next
  assume off: "connection_state a = OFFLINE"
  then have "connection_state a \<noteq> CONNECTED" by simp
  from network_worker_not_connected [OF this, of lib w] off
  show "snd (network_worker lib (a, w)) = w"
    "connection_state (fst (network_worker lib (a, w))) = OFFLINE"
    by simp_all
next
  assume "fst (app_connect lib (a, w))"
  then show "connection_state (fst (snd (app_connect lib (a, w)))) = CONNECTED"
    "retry_count (fst (snd (app_connect lib (a, w)))) = 0"
    by simp_all
qed

theorem backoff_and_retry_limit_witness:
  "backoff (test_app\<lparr>retry_count := 5\<rparr>) = 32
   \<and> backoff (test_app\<lparr>retry_count := 5\<rparr>) < backoff (test_app\<lparr>retry_count := 6\<rparr>)
   \<and> backoff (test_app\<lparr>retry_count := 6\<rparr>) = 60
   \<and> backoff (test_app\<lparr>retry_count := 6\<rparr>) \<le> backoff (test_app\<lparr>retry_count := 7\<rparr>)
   \<and> try_reconnect test_lib (test_app\<lparr>retry_count := 5\<rparr>, quiet_world)
       = (test_app\<lparr>retry_count := 5, connection_state := OFFLINE\<rparr>, quiet_world)
   \<and> retry_count (fst (try_reconnect test_lib (test_app\<lparr>retry_count := 4\<rparr>, quiet_world))) = 5
   \<and> retry_count (fst (snd (app_connect test_lib
         (test_app\<lparr>retry_count := 4\<rparr>, server_world [None] [join_ok_line])))) = 0"
proof -
  have base: "backoff_time test_app = 1" "max_retries test_app = 5"
    by (simp_all add: test_app_def MessengerApp_init_def)
  have b5: "backoff (test_app\<lparr>retry_count := 5\<rparr>) = 32"
    and b6: "backoff (test_app\<lparr>retry_count := 6\<rparr>) = 60"
    by (simp_all add: backoff_def base)
  have refused: "connection_state (fst (try_reconnect test_lib (test_app\<lparr>retry_count := 4\<rparr>, quiet_world)))
      \<noteq> CONNECTED"
    by (simp add: try_reconnect_def update_connection_state_def app_connect_def base Let_def
          sleep_def fixture_defs messenger_defs world_defs)
  have joined: "fst (app_connect test_lib
         (test_app\<lparr>retry_count := 4\<rparr>, server_world [None] [join_ok_line]))"
    by (simp add: app_connect_def test_app_def MessengerApp_init_def
          fixture_defs messenger_defs world_defs)
  have pos: "0 < backoff_time test_app" "0 \<le> backoff_time test_app"
    by (simp_all add: base)
  have exhausted: "max_retries (test_app\<lparr>retry_count := 5\<rparr>) \<le> int (retry_count (test_app\<lparr>retry_count := 5\<rparr>))"
    by (simp add: base)
  have left: "int (retry_count (test_app\<lparr>retry_count := 4\<rparr>)) < max_retries (test_app\<lparr>retry_count := 4\<rparr>)"
    by (simp add: base)
  from backoff_and_retry_limit [of test_app _ _ _ test_lib quiet_world 5] pos b5
  have 1: "backoff (test_app\<lparr>retry_count := 5\<rparr>) < backoff (test_app\<lparr>retry_count := Suc 5\<rparr>)"
    by simp
  from backoff_and_retry_limit [of test_app _ _ _ test_lib quiet_world 6] pos
  have 2: "backoff (test_app\<lparr>retry_count := 6\<rparr>) \<le> backoff (test_app\<lparr>retry_count := Suc 6\<rparr>)"
    by blast
  from backoff_and_retry_limit [of "test_app\<lparr>retry_count := 5\<rparr>" _ _ _ test_lib quiet_world] exhausted
  have 3: "try_reconnect test_lib (test_app\<lparr>retry_count := 5\<rparr>, quiet_world)
       = (test_app\<lparr>retry_count := 5, connection_state := OFFLINE\<rparr>, quiet_world)"
    by blast
  from backoff_and_retry_limit [of "test_app\<lparr>retry_count := 4\<rparr>" _ _ _ test_lib quiet_world] left refused
  have 4: "retry_count (fst (try_reconnect test_lib (test_app\<lparr>retry_count := 4\<rparr>, quiet_world)))
             = Suc (retry_count (test_app\<lparr>retry_count := 4\<rparr>))"
    by blast
  from backoff_and_retry_limit [of "test_app\<lparr>retry_count := 4\<rparr>" _ _ _ test_lib
         "server_world [None] [join_ok_line]"] joined
  have 5: "retry_count (fst (snd (app_connect test_lib
         (test_app\<lparr>retry_count := 4\<rparr>, server_world [None] [join_ok_line])))) = 0"
    by blast
  from b5 b6 1 2 3 4 5 show ?thesis by simp
qed

text \<open>
  Claim C2.  The send worker takes an original message (not a retry) off the queue
  while the state is not Connected, with the user set as the login dialog sets it before
  the threads start.  The pass appends one row to the pending queue, with the message's
  recipient, content and timestamp, a new id and no attempts, and changes nothing else
  but the queue it took the message from.  The world is the same afterwards: no call at
  all was made, so nothing was written and \<open>send\<close> was not invoked.
\<close>

theorem offline_original_is_queued_unsent:
  assumes "connection_state a \<noteq> CONNECTED"
    and "outgoing_queue a = m # rest"
    and "\<not> is_retry m"
    and "user_id a = Some uid"
  shows "network_worker lib (a, w) =
     (a\<lparr>outgoing_queue := rest,
        db := (db a)\<lparr>pending_messages := pending_messages (db a) @
                        [\<lparr>pending_id = next_pending_id (db a), p_user_id = uid,
                          p_recipient = msg_recipient m, p_content = msg_content m,
                          p_timestamp = msg_timestamp m, attempts = 0\<rparr>],
                      next_pending_id := Suc (next_pending_id (db a))\<rparr>\<rparr>, w)
   \<and> length (pending_messages (db (fst (network_worker lib (a, w)))))
       = Suc (length (pending_messages (db a)))
   \<and> calls (snd (network_worker lib (a, w))) = calls w"
  using assms by (simp add: network_worker_def add_pending_message_def Let_def)

theorem offline_original_is_queued_unsent_witness:
  "pending_messages (db (fst (network_worker test_lib
       (test_app\<lparr>outgoing_queue := [test_message]\<rparr>, server_world [None] [join_ok_line, ok_line]))))
     = [\<lparr>pending_id = 1, p_user_id = 1, p_recipient = ''bob'', p_content = ''hi'',
         p_timestamp = 1700000000, attempts = 0\<rparr>]
   \<and> calls (snd (network_worker test_lib
       (test_app\<lparr>outgoing_queue := [test_message]\<rparr>, server_world [None] [join_ok_line, ok_line])))
     = []"
proof -
  let ?a = "test_app\<lparr>outgoing_queue := [test_message]\<rparr>"
  have 1: "connection_state ?a \<noteq> CONNECTED"
    and 2: "outgoing_queue ?a = test_message # []"
    and 3: "\<not> is_retry test_message"
    and 4: "user_id ?a = Some 1"
    by (simp_all add: test_app_def MessengerApp_init_def test_message_def)
  from offline_original_is_queued_unsent [OF 1 2 3 4, of test_lib "server_world [None] [join_ok_line, ok_line]"]
  show ?thesis
    by (simp add: test_app_def MessengerApp_init_def test_message_def init_database_def
          fixture_defs)
qed

lemma mset_get_pending_messages:
  "mset (get_pending_messages uid d)
     = filter_mset (\<lambda>r. Some (p_user_id r) = uid \<and> attempts r < 3) (mset (pending_messages d))"
  by (simp add: get_pending_messages_def)

lemma sorted_get_pending_messages:
  "sorted (map p_timestamp (get_pending_messages uid d))"
  by (simp add: get_pending_messages_def)

lemma retry_message_fields [simp]:
  "msg_recipient (retry_message r) = p_recipient r"
  "msg_content (retry_message r) = p_content r"
  "msg_timestamp (retry_message r) = p_timestamp r"
  "is_retry (retry_message r)"
  "msg_pending_id (retry_message r) = Some (pending_id r)"
  by (simp_all add: retry_message_def)

lemma try_reconnect_connected:
  assumes "int (retry_count a) < max_retries a"
    and "connection_state (fst (try_reconnect lib (a, w))) = CONNECTED"
  shows "outgoing_queue (fst (try_reconnect lib (a, w)))
           = outgoing_queue a @ map retry_message (get_pending_messages (user_id a) (db a))"
proof -
  let ?s = "app_connect lib (a\<lparr>connection_state := RECONNECTING, retry_count := Suc (retry_count a)\<rparr>,
                             sleep (backoff a) w)"
  have "fst ?s"
  proof (rule ccontr)
    assume "\<not> fst ?s"
    with assms(2) show False
      by (simp add: try_reconnect_attempt [OF assms(1)] Let_def)
  qed
  then show ?thesis
    by (simp add: try_reconnect_attempt [OF assms(1)] Let_def)
qed

text \<open>
  Claim C1.  \<open>_try_reconnect\<close> that makes an attempt and ends Connected (its
  \<open>_connect\<close> succeeded) has run the flush: the outgoing queue has grown at its end
  by the messages \<open>new\<close>, which are, each exactly once, the pending rows of the active
  user with fewer than 3 attempts, every one turned into a message flagged as a retry
  that carries the row's id, recipient, content and timestamp, in the order of their
  timestamps.  No row of another user and no row with 3 or more attempts is among them.
\<close>

theorem flush_on_reconnect:
  assumes "int (retry_count a) < max_retries a"
    and "connection_state (fst (try_reconnect lib (a, w))) = CONNECTED"
  shows "\<exists>new. outgoing_queue (fst (try_reconnect lib (a, w))) = outgoing_queue a @ new
     \<and> mset new
         = image_mset
             (\<lambda>r. \<lparr>msg_recipient = p_recipient r, msg_content = p_content r,
                    msg_timestamp = p_timestamp r, is_retry = True,
                    msg_pending_id = Some (pending_id r)\<rparr>)
             (filter_mset (\<lambda>r. Some (p_user_id r) = user_id a \<and> attempts r < 3)
                (mset (pending_messages (db a))))
     \<and> sorted (map msg_timestamp new)
     \<and> (\<forall>x\<in>set new. is_retry x
           \<and> (\<exists>r\<in>set (pending_messages (db a)).
                 Some (p_user_id r) = user_id a \<and> attempts r < 3
                 \<and> msg_pending_id x = Some (pending_id r)
                 \<and> msg_recipient x = p_recipient r \<and> msg_content x = p_content r
                 \<and> msg_timestamp x = p_timestamp r))"
proof -
  let ?rows = "get_pending_messages (user_id a) (db a)"
  let ?f = "\<lambda>r. \<lparr>msg_recipient = p_recipient r, msg_content = p_content r,
                    msg_timestamp = p_timestamp r, is_retry = True,
                    msg_pending_id = Some (pending_id r)\<rparr>"
  let ?new = "map ?f ?rows"
  have rm: "retry_message = ?f"
    by (rule ext) (simp add: retry_message_def)
  have 1: "outgoing_queue (fst (try_reconnect lib (a, w))) = outgoing_queue a @ ?new"
    by (simp add: try_reconnect_connected [OF assms] rm)
  have 2: "mset ?new = image_mset ?f
             (filter_mset (\<lambda>r. Some (p_user_id r) = user_id a \<and> attempts r < 3)
                (mset (pending_messages (db a))))"
    by (simp add: mset_get_pending_messages)
  have 3: "sorted (map msg_timestamp ?new)"
    using sorted_get_pending_messages [of "user_id a" "db a"] by (simp add: comp_def)
  have rows: "set ?rows = {r \<in> set (pending_messages (db a)).
                             Some (p_user_id r) = user_id a \<and> attempts r < 3}"
    by (simp add: get_pending_messages_def)
  have 4: "\<forall>x\<in>set ?new. is_retry x
           \<and> (\<exists>r\<in>set (pending_messages (db a)).
                 Some (p_user_id r) = user_id a \<and> attempts r < 3
                 \<and> msg_pending_id x = Some (pending_id r)
                 \<and> msg_recipient x = p_recipient r \<and> msg_content x = p_content r
                 \<and> msg_timestamp x = p_timestamp r)"
    using rows by auto
  show ?thesis
    by (rule exI [of _ ?new]) (use 1 2 3 4 in blast)
qed

theorem flush_on_reconnect_witness:
  "outgoing_queue (fst (try_reconnect test_lib
       (test_app\<lparr>db := init_database\<lparr>pending_messages := test_pending\<rparr>\<rparr>,
        server_world [None] [join_ok_line])))
     = [\<lparr>msg_recipient = ''dave'', msg_content = ''second'', msg_timestamp = 1700000001,
         is_retry = True, msg_pending_id = Some 4\<rparr>,
        \<lparr>msg_recipient = ''bob'', msg_content = ''first'', msg_timestamp = 1700000002,
         is_retry = True, msg_pending_id = Some 1\<rparr>]"
proof -
  let ?a = "test_app\<lparr>db := init_database\<lparr>pending_messages := test_pending\<rparr>\<rparr>"
  let ?w = "server_world [None] [join_ok_line]"
  have lt: "int (retry_count ?a) < max_retries ?a"
    by (simp add: test_app_def MessengerApp_init_def)
  have connected: "connection_state (fst (try_reconnect test_lib (?a, ?w))) = CONNECTED"
    by (simp add: try_reconnect_def flush_pending_messages_def app_connect_def sleep_def
          update_connection_state_def backoff_def Let_def test_app_def MessengerApp_init_def
          fixture_defs messenger_defs world_defs)
  have direct: "outgoing_queue (fst (try_reconnect test_lib (?a, ?w)))
     = [\<lparr>msg_recipient = ''dave'', msg_content = ''second'', msg_timestamp = 1700000001,
         is_retry = True, msg_pending_id = Some 4\<rparr>,
        \<lparr>msg_recipient = ''bob'', msg_content = ''first'', msg_timestamp = 1700000002,
         is_retry = True, msg_pending_id = Some 1\<rparr>]"
    unfolding try_reconnect_connected [OF lt connected]
    by (simp add: get_pending_messages_def retry_message_def test_pending_def test_app_def
          MessengerApp_init_def init_database_def)
  from flush_on_reconnect [OF lt connected] direct show ?thesis by simp
qed

section \<open>The attempt counter\<close>

text \<open>
  \<open>add_message\<close> always raises: for want of a user or sender, or on the lock its own
  connection holds.  The pass of the worker whose \<open>send\<close> succeeded therefore ends in the
  handler of the loop, before the pending row is deleted and before the result is queued.
\<close>

lemma add_message_raises:
  "add_message uid sender rcpt content ts d =
     Inl (if uid = None \<or> sender = None then IntegrityError else OperationalError)"
  by (simp add: add_message_def add_contact_def split: option.splits)

lemma add_message_pending:
  "add_message uid sender rcpt content ts d = Inr d' \<Longrightarrow> pending_messages d' = pending_messages d"
  by (simp add: add_message_raises)

lemma add_pending_message_attempts:
  "add_pending_message uid rcpt content ts d = Inr d' \<Longrightarrow>
   \<forall>r\<in>set (pending_messages d). attempts r = 0 \<Longrightarrow>
   \<forall>r\<in>set (pending_messages d'). attempts r = 0"
  by (auto simp add: add_pending_message_def split: option.splits)

lemma mark_pending_sent_attempts:
  "\<forall>r\<in>set (pending_messages d). attempts r = 0 \<Longrightarrow>
   \<forall>r\<in>set (pending_messages (mark_pending_sent pid d)). attempts r = 0"
  by (simp add: mark_pending_sent_def)

lemma handle_send_failure_attempts:
  assumes "\<forall>r\<in>set (pending_messages (db a)). attempts r = 0"
  shows "\<forall>r\<in>set (pending_messages (db (fst (snd (handle_send_failure lib m (a, w)))))). attempts r = 0"
proof (cases "is_retry m")
  case True
  with assms show ?thesis
    by (simp add: handle_send_failure_def update_connection_state_def)
next
  case False
  show ?thesis
  proof (cases "add_pending_message (user_id a) (msg_recipient m) (msg_content m) (msg_timestamp m) (db a)")
    case (Inl e)
    with False assms show ?thesis by (simp add: handle_send_failure_def)
  next
    case (Inr d)
    from add_pending_message_attempts [OF Inr assms] False Inr show ?thesis
      by (simp add: handle_send_failure_def update_connection_state_def)
  qed
qed

lemma network_worker_attempts:
  assumes inv: "\<forall>r\<in>set (pending_messages (db a)). attempts r = 0"
  shows "\<forall>r\<in>set (pending_messages (db (fst (network_worker lib (a, w))))). attempts r = 0"
proof (cases "outgoing_queue a")
  case Nil
  with inv show ?thesis by (simp add: network_worker_def)
next
  case (Cons m rest)
  let ?a0 = "a\<lparr>outgoing_queue := rest\<rparr>"
  have inv0: "\<forall>r\<in>set (pending_messages (db ?a0)). attempts r = 0" using inv by simp
  show ?thesis
  proof (cases "connection_state a = CONNECTED")
    case False
    show ?thesis
    proof (cases "add_pending_message (user_id a) (msg_recipient m) (msg_content m) (msg_timestamp m) (db a)")
      case (Inl e)
      with False Cons inv show ?thesis by (simp add: network_worker_def Let_def)
    next
      case (Inr d)
      from add_pending_message_attempts [OF Inr inv] False Cons Inr inv show ?thesis
        by (simp add: network_worker_def Let_def)
    qed
  next
    case True
    show ?thesis
    proof (cases "messenger a")
      case None
      with True Cons handle_send_failure_attempts [OF inv0, of lib m w] show ?thesis
        by (simp add: network_worker_def Let_def)
    next
      case (Some dm)
      let ?r = "send lib (msg_content m) (msg_recipient m) (dm, w)"
      let ?a1 = "?a0\<lparr>messenger := Some (fst (snd ?r))\<rparr>"
      have inv1: "\<forall>r\<in>set (pending_messages (db ?a1)). attempts r = 0" using inv by simp
      show ?thesis
      proof (cases "fst ?r = Some True")
        case False
        with True Cons Some handle_send_failure_attempts [OF inv1, of lib m "snd (snd ?r)"]
        show ?thesis
          by (simp add: network_worker_def Let_def case_prod_beta)
      next
        case sent: True
        show ?thesis
        proof (cases "add_message (user_id a) (app_username a) (msg_recipient m)
                        (msg_content m) (msg_timestamp m) (db a)")
          case (Inl e)
          with sent True Cons Some inv show ?thesis
            by (simp add: network_worker_def Let_def case_prod_beta)
        next
          case (Inr d)
          from add_message_pending [OF Inr] inv
          have d: "\<forall>r\<in>set (pending_messages d). attempts r = 0" by simp
          with mark_pending_sent_attempts
          have "\<forall>r\<in>set (pending_messages
                     (case msg_pending_id m of None \<Rightarrow> d
                      | Some pid \<Rightarrow> if pid \<noteq> 0 then mark_pending_sent pid d else d)). attempts r = 0"
            by (simp split: option.splits)
          with sent True Cons Some Inr show ?thesis
            by (simp add: network_worker_def Let_def case_prod_beta)
        qed
      qed
    qed
  qed
qed

lemma reachable_attempts:
  "reachable lib s \<Longrightarrow> \<forall>r\<in>set (pending_messages (db (fst s))). attempts r = 0"
proof (induction rule: reachable.induct)
  case (start cfg_max_retries cfg_server w)
  show ?case by (simp add: MessengerApp_init_def init_database_def)
next
  case (restart a w cfg_max_retries cfg_server w')
  then show ?case by (simp add: MessengerApp_init_def)
next
  case (login a w srv uid u p)
  then show ?case by simp
next
  case (submit a w rcpt content ts)
  then show ?case by simp
next
  case (worker s)
  obtain a w where s: "s = (a, w)" by (cases s)
  with worker.IH network_worker_attempts [of a lib w] show ?case by simp
next
  case (poll_failure a w)
  then show ?case by (simp add: update_connection_state_def)
next
  case (other a w dm iq ms cs w')
  then show ?case by simp
qed

text \<open>
  Claim C10.  \<open>increment_pending_attempts\<close> occurs in no operation of the
  coordinator.  In every state the program reaches, every row of the pending queue has
  \<open>attempts = 0\<close>, the schema default it was inserted with; so the test
  \<open>attempts < 3\<close> of \<open>get_pending_messages\<close> excludes nothing: the rows it returns
  for a user are all of that user's rows.
\<close>

theorem attempts_stay_zero:
  assumes "reachable lib s"
  shows "(\<forall>r\<in>set (pending_messages (db (fst s))). attempts r = 0)
     \<and> mset (get_pending_messages uid (db (fst s)))
         = filter_mset (\<lambda>r. Some (p_user_id r) = uid) (mset (pending_messages (db (fst s))))"
proof -
  from reachable_attempts [OF assms]
  have inv: "\<forall>r\<in>set (pending_messages (db (fst s))). attempts r = 0" .
  then have "filter_mset (\<lambda>r. Some (p_user_id r) = uid \<and> attempts r < 3)
               (mset (pending_messages (db (fst s))))
           = filter_mset (\<lambda>r. Some (p_user_id r) = uid) (mset (pending_messages (db (fst s))))"
    by (intro filter_mset_cong) auto
  with inv show ?thesis by (simp add: mset_get_pending_messages)
qed

theorem attempts_stay_zero_witness:
  "map attempts (pending_messages (db (fst (network_worker test_lib
      (fst (snd (app_connect test_lib
         ((MessengerApp_init 5 ''127.0.0.1'' init_database)
            \<lparr>server := ''127.0.0.1'', user_id := Some 1, app_username := Some ''testuser'',
              app_password := Some ''testpass''\<rparr>, quiet_world)))
         \<lparr>outgoing_queue := outgoing_queue (fst (snd (app_connect test_lib
             ((MessengerApp_init 5 ''127.0.0.1'' init_database)
                \<lparr>server := ''127.0.0.1'', user_id := Some 1, app_username := Some ''testuser'',
                  app_password := Some ''testpass''\<rparr>, quiet_world)))) @
            [\<lparr>msg_recipient = ''bob'', msg_content = ''hi'', msg_timestamp = 1700000000,
              is_retry = False, msg_pending_id = None\<rparr>]\<rparr>,
       snd (snd (app_connect test_lib
         ((MessengerApp_init 5 ''127.0.0.1'' init_database)
            \<lparr>server := ''127.0.0.1'', user_id := Some 1, app_username := Some ''testuser'',
              app_password := Some ''testpass''\<rparr>, quiet_world)))))))) = [0]"
proof -
  let ?login = "snd (app_connect test_lib
         ((MessengerApp_init 5 ''127.0.0.1'' init_database)
            \<lparr>server := ''127.0.0.1'', user_id := Some 1, app_username := Some ''testuser'',
              app_password := Some ''testpass''\<rparr>, quiet_world))"
  let ?submitted = "(fst ?login
         \<lparr>outgoing_queue := outgoing_queue (fst ?login) @
            [\<lparr>msg_recipient = ''bob'', msg_content = ''hi'', msg_timestamp = 1700000000,
              is_retry = False, msg_pending_id = None\<rparr>]\<rparr>, snd ?login)"
  have "reachable test_lib (MessengerApp_init 5 ''127.0.0.1'' init_database, quiet_world)"
    by (rule reachable.start)
  then have "reachable test_lib ?login"
    by (rule reachable.login)
  then have "reachable test_lib (fst ?login, snd ?login)" by simp
  then have "reachable test_lib ?submitted"
    by (rule reachable.submit)
  then have r: "reachable test_lib (network_worker test_lib ?submitted)"
    by (rule reachable.worker)
  have refused: "\<not> fst (app_connect test_lib
         ((MessengerApp_init 5 ''127.0.0.1'' init_database)
            \<lparr>server := ''127.0.0.1'', user_id := Some 1, app_username := Some ''testuser'',
              app_password := Some ''testpass''\<rparr>, quiet_world))"
    by (simp add: app_connect_def MessengerApp_init_def fixture_defs messenger_defs world_defs)
  have one: "length (pending_messages (db (fst (network_worker test_lib ?submitted)))) = 1"
    using refused
    by (simp add: network_worker_def add_pending_message_def Let_def MessengerApp_init_def
          init_database_def)
  from attempts_stay_zero [OF r] one show ?thesis
    by (cases "pending_messages (db (fst (network_worker test_lib ?submitted)))") auto
qed

end
